theory Spec2Isabelle
  imports Complex_Main "HOL-Library.AList"
begin

section \<open>The access-controlled caching proxy of \<open>proxy.py\<close>\<close>

text \<open>
  A shallow embedding of \<open>estruturais/code_tests/proxy.py\<close>: the permission gate
  (\<open>UserPermissions\<close>), the result cache (\<open>QueryCache\<close>), the audit log, the metrics
  counters, the simulated store (\<open>RealDatabaseService\<close>) and the proxy that composes them
  (\<open>DatabaseProxy\<close>). Objects are records, mutation is state passing, a raised exception
  is the left summand of a result. Console output is left out.
\<close>

subsection \<open>Strings\<close>

text \<open>
  Operation texts are taken to be ASCII. \<open>str.upper\<close> and \<open>str.lower\<close> then change the
  letters only, which differ from their other case in one bit; \<open>str.strip\<close> removes the
  ASCII whitespace of \<open>str.isspace\<close> (codes 9 to 13 and 28 to 32) at both ends.
\<close>

definition upper_char :: "char \<Rightarrow> char" where
  "upper_char c =
     (if 97 \<le> (of_char c :: nat) \<and> (of_char c :: nat) \<le> 122
      then (case c of Char b0 b1 b2 b3 b4 b5 b6 b7 \<Rightarrow> Char b0 b1 b2 b3 b4 False b6 b7)
      else c)"

definition lower_char :: "char \<Rightarrow> char" where
  "lower_char c =
     (if 65 \<le> (of_char c :: nat) \<and> (of_char c :: nat) \<le> 90
      then (case c of Char b0 b1 b2 b3 b4 b5 b6 b7 \<Rightarrow> Char b0 b1 b2 b3 b4 True b6 b7)
      else c)"

definition upper :: "string \<Rightarrow> string" where
  "upper s = map upper_char s"

definition lower :: "string \<Rightarrow> string" where
  "lower s = map lower_char s"

definition isspace :: "char \<Rightarrow> bool" where
  "isspace c = ((9 \<le> (of_char c :: nat) \<and> (of_char c :: nat) \<le> 13)
              \<or> (28 \<le> (of_char c :: nat) \<and> (of_char c :: nat) \<le> 32))"

definition strip :: "string \<Rightarrow> string" where
  "strip s = rev (dropWhile isspace (rev (dropWhile isspace s)))"

definition startswith :: "string \<Rightarrow> string \<Rightarrow> bool" where
  "startswith s p = (take (length p) s = p)"

text \<open>Python's \<open>sub in s\<close> on strings.\<close>

fun str_in :: "string \<Rightarrow> string \<Rightarrow> bool" where
  "str_in sub [] = (sub = [])"
| "str_in sub (c # cs) = (startswith (c # cs) sub \<or> str_in sub cs)"

subsection \<open>Enums and data classes\<close>

datatype PermissionType = SELECT | INSERT | UPDATE | DELETE | DDL | ADMIN

text \<open>
  The values the dictionaries of the program hold (rows of the mock tables, audit log
  entries). A \<open>datetime\<close> is its number of microseconds on the time axis, a \<open>timedelta\<close>
  a difference of two; a float is a real number (rounding is not modelled).
\<close>

datatype pyval = PInt int | PStr string | PFloat real | PBool bool | PDatetime int

text \<open>
  A Python \<open>dict\<close> is an association list in insertion order: \<open>d[k] = v\<close> is
  \<open>AList.update k v d\<close> (in place for a key that is there, at the end for a new one),
  \<open>del d[k]\<close> is \<open>AList.delete k d\<close>, \<open>d[k]\<close> is \<open>map_of d k\<close>, \<open>k in d\<close> is
  \<open>k \<in> dict_keys d\<close>, \<open>len(d)\<close> is the length of the list, and iteration runs
  through the list.
\<close>

definition dict_keys :: "('k \<times> 'v) list \<Rightarrow> 'k set" where
  "dict_keys d = set (map fst d)"

type_synonym row = "(string \<times> pyval) list"

record QueryResult =
  rows :: "row list"
  affected_rows :: int
  execution_time :: real
  timestamp :: int

record DatabaseConfig =
  host :: string
  port :: int
  database :: string
  username :: string
  password :: string
  max_connections :: int
  connection_timeout :: int

datatype error = PermissionError string | RuntimeError string | KeyError string

subsection \<open>The environment of one call\<close>

text \<open>
  What a call reads from outside the program: the clock (\<open>datetime.now()\<close>, once for
  each place that reads it), elapsed wall time (\<open>time.time()\<close> differences) and the
  random draws of the simulated store.
\<close>

record env =
  now_get_check :: int
  now_get_access :: int
  now_put_cached :: int
  now_put_access :: int
  now_log :: int
  now_log_connection :: int
  elapsed :: real
  random_connect :: real
  now_connected :: int
  db_elapsed :: real
  now_result :: int
  random_affected :: int

subsection \<open>\<open>DatabaseService\<close>: the subject interface\<close>

text \<open>
  The abstract class \<open>DatabaseService\<close> as a record of operations on a store state
  \<open>'s\<close>. The operations return what the interface declares; \<open>execute_query\<close> and
  \<open>execute_update\<close>, which the proxy calls inside \<open>try\<close>, may raise instead.
  \<open>svc_new\<close> is the constructor.
\<close>

record 's DatabaseService =
  svc_new :: "DatabaseConfig \<Rightarrow> 's"
  svc_connect :: "env \<Rightarrow> 's \<Rightarrow> bool \<times> 's"
  svc_disconnect :: "'s \<Rightarrow> bool \<times> 's"
  svc_execute_query :: "env \<Rightarrow> 's \<Rightarrow> string \<Rightarrow> (error + QueryResult) \<times> 's"
  svc_execute_update :: "env \<Rightarrow> 's \<Rightarrow> string \<Rightarrow> (error + int) \<times> 's"
  svc_begin_transaction :: "'s \<Rightarrow> bool \<times> 's"
  svc_commit_transaction :: "'s \<Rightarrow> bool \<times> 's"
  svc_rollback_transaction :: "'s \<Rightarrow> bool \<times> 's"
  svc_is_connected :: "'s \<Rightarrow> bool"

subsection \<open>\<open>RealDatabaseService\<close>\<close>

record RealDatabaseService =
  db_config :: DatabaseConfig
  connected :: bool
  in_transaction :: bool
  connection_time :: "int option"
  mock_data :: "(string \<times> row list) list"

definition mock_users :: "row list" where
  "mock_users =
     [[(''id'', PInt 1), (''name'', PStr ''Alice''),
       (''email'', PStr ''alice@example.com''), (''role'', PStr ''admin'')],
      [(''id'', PInt 2), (''name'', PStr ''Bob''),
       (''email'', PStr ''bob@example.com''), (''role'', PStr ''user'')],
      [(''id'', PInt 3), (''name'', PStr ''Carol''),
       (''email'', PStr ''carol@example.com''), (''role'', PStr ''user'')],
      [(''id'', PInt 4), (''name'', PStr ''David''),
       (''email'', PStr ''david@example.com''), (''role'', PStr ''manager'')]]"

definition mock_products :: "row list" where
  "mock_products =
     [[(''id'', PInt 1), (''name'', PStr ''Laptop''),
       (''price'', PFloat (99999 / 100)), (''category'', PStr ''Electronics'')],
      [(''id'', PInt 2), (''name'', PStr ''Mouse''),
       (''price'', PFloat (2999 / 100)), (''category'', PStr ''Electronics'')],
      [(''id'', PInt 3), (''name'', PStr ''Book''),
       (''price'', PFloat (1999 / 100)), (''category'', PStr ''Books'')]]"

definition Real_init :: "DatabaseConfig \<Rightarrow> RealDatabaseService" where
  "Real_init cfg =
     \<lparr> db_config = cfg, connected = False, in_transaction = False, connection_time = None,
       mock_data = [(''users'', mock_users), (''products'', mock_products)] \<rparr>"

definition Real_connect :: "env \<Rightarrow> RealDatabaseService \<Rightarrow> bool \<times> RealDatabaseService" where
  "Real_connect e s =
     (if connected s then (True, s)
      else if random_connect e < 1 / 10 then (False, s)
      else (True, s\<lparr>connected := True, connection_time := Some (now_connected e)\<rparr>))"

definition Real_disconnect :: "RealDatabaseService \<Rightarrow> bool \<times> RealDatabaseService" where
  "Real_disconnect s =
     (if \<not> connected s then (True, s)
      else (True, s\<lparr>connected := False, connection_time := None\<rparr>))"

definition Real_table :: "RealDatabaseService \<Rightarrow> string \<Rightarrow> error + row list" where
  "Real_table s name =
     (case map_of (mock_data s) name of None \<Rightarrow> Inl (KeyError name) | Some rs \<Rightarrow> Inr rs)"

definition Real_execute_query ::
  "env \<Rightarrow> RealDatabaseService \<Rightarrow> string \<Rightarrow> (error + QueryResult) \<times> RealDatabaseService" where
  "Real_execute_query e s query =
     (if \<not> connected s then (Inl (RuntimeError ''Not connected to database''), s)
      else
        let query_lower = strip (lower query);
            found =
              (if startswith query_lower ''select'' then
                 (if str_in ''users'' query_lower then Real_table s ''users''
                  else if str_in ''products'' query_lower then Real_table s ''products''
                  else Inr [])
               else Inr [])
        in (case found of
              Inl err \<Rightarrow> (Inl err, s)
            | Inr rs \<Rightarrow>
                (Inr \<lparr> rows = rs, affected_rows = 0, execution_time = db_elapsed e,
                       timestamp = now_result e \<rparr>, s)))"

definition Real_execute_update ::
  "env \<Rightarrow> RealDatabaseService \<Rightarrow> string \<Rightarrow> (error + int) \<times> RealDatabaseService" where
  "Real_execute_update e s query =
     (if \<not> connected s then (Inl (RuntimeError ''Not connected to database''), s)
      else (Inr (random_affected e), s))"

definition Real_begin_transaction :: "RealDatabaseService \<Rightarrow> bool \<times> RealDatabaseService" where
  "Real_begin_transaction s =
     (if \<not> connected s then (False, s) else (True, s\<lparr>in_transaction := True\<rparr>))"

definition Real_commit_transaction :: "RealDatabaseService \<Rightarrow> bool \<times> RealDatabaseService" where
  "Real_commit_transaction s =
     (if \<not> in_transaction s then (False, s) else (True, s\<lparr>in_transaction := False\<rparr>))"

definition Real_rollback_transaction :: "RealDatabaseService \<Rightarrow> bool \<times> RealDatabaseService" where
  "Real_rollback_transaction s =
     (if \<not> in_transaction s then (False, s) else (True, s\<lparr>in_transaction := False\<rparr>))"

definition Real_is_connected :: "RealDatabaseService \<Rightarrow> bool" where
  "Real_is_connected s = connected s"

definition Real :: "RealDatabaseService DatabaseService" where
  "Real =
     \<lparr> svc_new = Real_init, svc_connect = Real_connect, svc_disconnect = Real_disconnect,
       svc_execute_query = Real_execute_query, svc_execute_update = Real_execute_update,
       svc_begin_transaction = Real_begin_transaction,
       svc_commit_transaction = Real_commit_transaction,
       svc_rollback_transaction = Real_rollback_transaction,
       svc_is_connected = Real_is_connected \<rparr>"

subsection \<open>\<open>UserPermissions\<close>\<close>

record UserPermissions =
  user_id :: string
  permissions :: "PermissionType set"

definition can_execute_select :: "UserPermissions \<Rightarrow> bool" where
  "can_execute_select u = (SELECT \<in> permissions u \<or> ADMIN \<in> permissions u)"

definition can_execute_insert :: "UserPermissions \<Rightarrow> bool" where
  "can_execute_insert u = (INSERT \<in> permissions u \<or> ADMIN \<in> permissions u)"

definition can_execute_update :: "UserPermissions \<Rightarrow> bool" where
  "can_execute_update u = (UPDATE \<in> permissions u \<or> ADMIN \<in> permissions u)"

definition can_execute_delete :: "UserPermissions \<Rightarrow> bool" where
  "can_execute_delete u = (DELETE \<in> permissions u \<or> ADMIN \<in> permissions u)"

definition can_execute_ddl :: "UserPermissions \<Rightarrow> bool" where
  "can_execute_ddl u = (DDL \<in> permissions u \<or> ADMIN \<in> permissions u)"

definition has_permission :: "UserPermissions \<Rightarrow> string \<Rightarrow> bool" where
  "has_permission u operation =
     (let operation_upper = upper operation in
      if startswith operation_upper ''SELECT'' then can_execute_select u
      else if startswith operation_upper ''INSERT'' then can_execute_insert u
      else if startswith operation_upper ''UPDATE'' then can_execute_update u
      else if startswith operation_upper ''DELETE'' then can_execute_delete u
      else if startswith operation_upper ''CREATE'' \<or> startswith operation_upper ''ALTER''
              \<or> startswith operation_upper ''DROP'' then can_execute_ddl u
      else False)"

subsection \<open>\<open>QueryCache\<close>\<close>

text \<open>
  \<open>cache\<close> maps a key to the result and the time it was cached, \<open>access_times\<close> maps a
  key to the time of its last access. The key is the MD5 hex digest of the lower-cased,
  stripped text; the digest function, which is \<open>hashlib\<close>'s, is the parameter \<open>md5\<close>.
\<close>

record QueryCache =
  max_size :: int
  ttl_seconds :: int
  cache :: "(string \<times> (QueryResult \<times> int)) list"
  access_times :: "(string \<times> int) list"

definition QueryCache_init :: "int \<Rightarrow> int \<Rightarrow> QueryCache" where
  "QueryCache_init ms ttl = \<lparr> max_size = ms, ttl_seconds = ttl, cache = [], access_times = [] \<rparr>"

definition get_cache_key :: "(string \<Rightarrow> string) \<Rightarrow> string \<Rightarrow> string" where
  "get_cache_key md5 query = md5 (strip (lower query))"

text \<open>\<open>timedelta(seconds=n)\<close> in microseconds.\<close>

definition timedelta_seconds :: "int \<Rightarrow> int" where
  "timedelta_seconds n = n * 1000000"

definition QueryCache_get ::
  "(string \<Rightarrow> string) \<Rightarrow> QueryCache \<Rightarrow> string \<Rightarrow> int \<Rightarrow> int \<Rightarrow> QueryResult option \<times> QueryCache" where
  "QueryCache_get md5 c query now1 now2 =
     (let cache_key = get_cache_key md5 query in
      case map_of (cache c) cache_key of
        None \<Rightarrow> (None, c)
      | Some (result, cached_time) \<Rightarrow>
          if now1 - cached_time < timedelta_seconds (ttl_seconds c)
          then (Some result, c\<lparr>access_times := AList.update cache_key now2 (access_times c)\<rparr>)
          else (None,
                c\<lparr>cache := AList.delete cache_key (cache c),
                  access_times :=
                    (if cache_key \<in> dict_keys (access_times c)
                     then AList.delete cache_key (access_times c)
                     else access_times c)\<rparr>))"

text \<open>
  \<open>min(d.keys(), key=lambda k: d[k])\<close>: the first key, in the order of the dictionary,
  whose value is least. \<open>min_by best xs\<close> is the loop of \<open>min\<close> with the best entry so far.
\<close>

fun min_by :: "'k \<times> int \<Rightarrow> ('k \<times> int) list \<Rightarrow> 'k \<times> int" where
  "min_by best [] = best"
| "min_by best (x # xs) = min_by (if snd x < snd best then x else best) xs"

definition evict_oldest :: "QueryCache \<Rightarrow> QueryCache" where
  "evict_oldest c =
     (case access_times c of
        [] \<Rightarrow> c
      | x # xs \<Rightarrow>
          let oldest_key = fst (min_by x xs) in
          c\<lparr>cache :=
              (if oldest_key \<in> dict_keys (cache c)
               then AList.delete oldest_key (cache c) else cache c),
            access_times := AList.delete oldest_key (access_times c)\<rparr>)"

definition QueryCache_put ::
  "(string \<Rightarrow> string) \<Rightarrow> QueryCache \<Rightarrow> string \<Rightarrow> QueryResult \<Rightarrow> int \<Rightarrow> int \<Rightarrow> QueryCache" where
  "QueryCache_put md5 c query result now1 now2 =
     (let cache_key = get_cache_key md5 query;
          c1 = (if int (length (cache c)) \<ge> max_size c then evict_oldest c else c)
      in c1\<lparr>cache := AList.update cache_key (result, now1) (cache c1),
            access_times := AList.update cache_key now2 (access_times c1)\<rparr>)"

definition QueryCache_clear :: "QueryCache \<Rightarrow> QueryCache" where
  "QueryCache_clear c = c\<lparr>cache := [], access_times := []\<rparr>"

text \<open>The states a cache can be in: those its public methods produce from a new one.\<close>

inductive QueryCache_reachable :: "(string \<Rightarrow> string) \<Rightarrow> QueryCache \<Rightarrow> bool"
  for md5 :: "string \<Rightarrow> string" where
  reach_init: "QueryCache_reachable md5 (QueryCache_init ms ttl)"
| reach_get: "QueryCache_reachable md5 c \<Longrightarrow>
     QueryCache_reachable md5 (snd (QueryCache_get md5 c query now1 now2))"
| reach_put: "QueryCache_reachable md5 c \<Longrightarrow>
     QueryCache_reachable md5 (QueryCache_put md5 c query result now1 now2)"
| reach_clear: "QueryCache_reachable md5 c \<Longrightarrow> QueryCache_reachable md5 (QueryCache_clear c)"

subsection \<open>\<open>AuditLogger\<close> and \<open>MetricsCollector\<close>\<close>

text \<open>The \<open>result: Any\<close> that \<open>log_query\<close> is given by the proxy.\<close>

datatype any_result = PyNone | PyInt int | PyQueryResult QueryResult

record AuditLogger =
  log_file :: string
  logs :: "(string \<times> pyval) list list"

definition AuditLogger_init :: "AuditLogger" where
  "AuditLogger_init = \<lparr> log_file = ''database_audit.log'', logs = [] \<rparr>"

definition log_query :: "AuditLogger \<Rightarrow> string \<Rightarrow> string \<Rightarrow> any_result \<Rightarrow> int \<Rightarrow> AuditLogger" where
  "log_query a uid query result now =
     (let log_entry =
        [(''timestamp'', PDatetime now),
         (''user_id'', PStr uid),
         (''operation'', PStr ''QUERY''),
         (''query'', PStr query),
         (''success'', PBool (result \<noteq> PyNone)),
         (''rows_returned'',
            PInt (case result of PyQueryResult r \<Rightarrow> int (length (rows r)) | _ \<Rightarrow> 0))]
      in a\<lparr>logs := logs a @ [log_entry]\<rparr>)"

definition log_connection :: "AuditLogger \<Rightarrow> string \<Rightarrow> bool \<Rightarrow> int \<Rightarrow> AuditLogger" where
  "log_connection a uid success now =
     (let log_entry =
        [(''timestamp'', PDatetime now),
         (''user_id'', PStr uid),
         (''operation'', PStr ''CONNECTION''),
         (''success'', PBool success)]
      in a\<lparr>logs := logs a @ [log_entry]\<rparr>)"

definition log_transaction :: "AuditLogger \<Rightarrow> string \<Rightarrow> string \<Rightarrow> int \<Rightarrow> AuditLogger" where
  "log_transaction a uid operation now =
     (let log_entry =
        [(''timestamp'', PDatetime now),
         (''user_id'', PStr uid),
         (''operation'', PStr (''TRANSACTION_'' @ upper operation)),
         (''success'', PBool True)]
      in a\<lparr>logs := logs a @ [log_entry]\<rparr>)"

definition AuditLogger_get_audit_trail :: "AuditLogger \<Rightarrow> string \<Rightarrow> (string \<times> pyval) list list" where
  "AuditLogger_get_audit_trail a uid =
     filter (\<lambda>log. map_of log ''user_id'' = Some (PStr uid)) (logs a)"

record MetricsCollector =
  query_count :: int
  cache_hits :: int
  cache_misses :: int
  total_execution_time :: real
  connection_count :: int

definition MetricsCollector_init :: "MetricsCollector" where
  "MetricsCollector_init =
     \<lparr> query_count = 0, cache_hits = 0, cache_misses = 0, total_execution_time = 0,
       connection_count = 0 \<rparr>"

definition record_query :: "MetricsCollector \<Rightarrow> real \<Rightarrow> MetricsCollector" where
  "record_query m t =
     m\<lparr>query_count := query_count m + 1, total_execution_time := total_execution_time m + t\<rparr>"

definition record_cache_hit :: "MetricsCollector \<Rightarrow> MetricsCollector" where
  "record_cache_hit m = m\<lparr>cache_hits := cache_hits m + 1\<rparr>"

definition record_cache_miss :: "MetricsCollector \<Rightarrow> MetricsCollector" where
  "record_cache_miss m = m\<lparr>cache_misses := cache_misses m + 1\<rparr>"

definition record_connection :: "MetricsCollector \<Rightarrow> MetricsCollector" where
  "record_connection m = m\<lparr>connection_count := connection_count m + 1\<rparr>"

subsection \<open>\<open>DatabaseProxy\<close>\<close>

text \<open>
  The proxy owns its components and, once created, the store; a method of the store that
  changes it is followed here by writing the new store state back to \<open>real_service\<close>.
  Every operation returns its result, or the exception it raises, with the new state of
  the proxy. The local variable \<open>real_service\<close> of a method is the object in the field
  \<open>real_service\<close>: after \<open>connect\<close>, which changes that object, the model reads it from
  the field again, where \<open>get_real_service\<close> has put it. The field is never \<open>None\<close>
  at that point (lemma \<open>ensured_store_exists\<close>); the branch of the model for \<open>None\<close> is
  there for totality only.
\<close>

record 's DatabaseProxy =
  config :: DatabaseConfig
  user_permissions :: UserPermissions
  real_service :: "'s option"
  query_cache :: QueryCache
  audit_logger :: AuditLogger
  metrics_collector :: MetricsCollector

definition Proxy_init :: "DatabaseConfig \<Rightarrow> UserPermissions \<Rightarrow> 's DatabaseProxy" where
  "Proxy_init cfg u =
     \<lparr> config = cfg, user_permissions = u, real_service = None,
       query_cache = QueryCache_init 50 300, audit_logger = AuditLogger_init,
       metrics_collector = MetricsCollector_init \<rparr>"

definition get_real_service :: "'s DatabaseService \<Rightarrow> 's DatabaseProxy \<Rightarrow> 's \<times> 's DatabaseProxy" where
  "get_real_service svc p =
     (case real_service p of
        None \<Rightarrow> (let s = svc_new svc (config p) in (s, p\<lparr>real_service := Some s\<rparr>))
      | Some s \<Rightarrow> (s, p))"

definition check_permissions :: "'s DatabaseProxy \<Rightarrow> string \<Rightarrow> bool" where
  "check_permissions p operation = has_permission (user_permissions p) operation"

definition Proxy_connect ::
  "'s DatabaseService \<Rightarrow> 's DatabaseProxy \<Rightarrow> env \<Rightarrow> bool \<times> 's DatabaseProxy" where
  "Proxy_connect svc p e =
     (let (s, p1) = get_real_service svc p;
          (success, s') = svc_connect svc e s;
          p2 = p1\<lparr>real_service := Some s',
                  audit_logger :=
                    log_connection (audit_logger p1) (user_id (user_permissions p1)) success
                      (now_log_connection e)\<rparr>
      in if success
         then (success, p2\<lparr>metrics_collector := record_connection (metrics_collector p2)\<rparr>)
         else (success, p2))"

definition Proxy_disconnect :: "'s DatabaseService \<Rightarrow> 's DatabaseProxy \<Rightarrow> bool \<times> 's DatabaseProxy" where
  "Proxy_disconnect svc p =
     (case real_service p of
        None \<Rightarrow> (True, p)
      | Some s \<Rightarrow> (let (r, s') = svc_disconnect svc s in (r, p\<lparr>real_service := Some s'\<rparr>)))"

definition permission_message :: "'s DatabaseProxy \<Rightarrow> string \<Rightarrow> string" where
  "permission_message p query =
     ''User '' @ user_id (user_permissions p) @ '' does not have permission to execute: '' @ query"

definition Proxy_execute_query ::
  "'s DatabaseService \<Rightarrow> (string \<Rightarrow> string) \<Rightarrow> 's DatabaseProxy \<Rightarrow> string \<Rightarrow> env
     \<Rightarrow> (error + QueryResult) \<times> 's DatabaseProxy" where
  "Proxy_execute_query svc md5 p query e =
     (if \<not> check_permissions p query then (Inl (PermissionError (permission_message p query)), p)
      else
        let (cached_result, c1) =
              QueryCache_get md5 (query_cache p) query (now_get_check e) (now_get_access e);
            p1 = p\<lparr>query_cache := c1\<rparr>
        in case cached_result of
             Some r \<Rightarrow>
               (Inr r,
                p1\<lparr>metrics_collector := record_cache_hit (metrics_collector p1),
                   audit_logger :=
                     log_query (audit_logger p1) (user_id (user_permissions p1)) query
                       (PyQueryResult r) (now_log e)\<rparr>)
           | None \<Rightarrow>
               let p2 = p1\<lparr>metrics_collector := record_cache_miss (metrics_collector p1)\<rparr>;
                   (s, p3) = get_real_service svc p2;
                   (ok, p4) = (if \<not> svc_is_connected svc s then Proxy_connect svc p3 e
                               else (True, p3))
               in if \<not> ok then (Inl (RuntimeError ''Failed to connect to database''), p4)
                  else
                    case real_service p4 of
                      None \<Rightarrow> (Inl (RuntimeError ''Failed to connect to database''), p4)
                    | Some s1 \<Rightarrow>
                        (case svc_execute_query svc e s1 query of
                           (Inr result, s2) \<Rightarrow>
                             let p5 = p4\<lparr>real_service := Some s2,
                                         metrics_collector :=
                                           record_query (metrics_collector p4) (elapsed e)\<rparr>;
                                 p6 = (if startswith (strip (lower query)) ''select''
                                       then p5\<lparr>query_cache :=
                                                 QueryCache_put md5 (query_cache p5) query result
                                                   (now_put_cached e) (now_put_access e)\<rparr>
                                       else p5)
                             in (Inr result,
                                 p6\<lparr>audit_logger :=
                                      log_query (audit_logger p6) (user_id (user_permissions p6))
                                        query (PyQueryResult result) (now_log e)\<rparr>)
                         | (Inl err, s2) \<Rightarrow>
                             (Inl err,
                              p4\<lparr>real_service := Some s2,
                                 audit_logger :=
                                   log_query (audit_logger p4) (user_id (user_permissions p4))
                                     query PyNone (now_log e)\<rparr>)))"

definition Proxy_execute_update ::
  "'s DatabaseService \<Rightarrow> 's DatabaseProxy \<Rightarrow> string \<Rightarrow> env \<Rightarrow> (error + int) \<times> 's DatabaseProxy" where
  "Proxy_execute_update svc p query e =
     (if \<not> check_permissions p query then (Inl (PermissionError (permission_message p query)), p)
      else
        let (s, p1) = get_real_service svc p;
            (ok, p2) = (if \<not> svc_is_connected svc s then Proxy_connect svc p1 e else (True, p1))
        in if \<not> ok then (Inl (RuntimeError ''Failed to connect to database''), p2)
           else
             case real_service p2 of
               None \<Rightarrow> (Inl (RuntimeError ''Failed to connect to database''), p2)
             | Some s1 \<Rightarrow>
                 (case svc_execute_update svc e s1 query of
                    (Inr result, s2) \<Rightarrow>
                      let p3 = p2\<lparr>real_service := Some s2\<rparr>;
                          p4 = (if \<not> startswith (strip (lower query)) ''select''
                                then p3\<lparr>query_cache := QueryCache_clear (query_cache p3)\<rparr>
                                else p3);
                          p5 = p4\<lparr>metrics_collector :=
                                      record_query (metrics_collector p4) (elapsed e)\<rparr>
                      in (Inr result,
                          p5\<lparr>audit_logger :=
                               log_query (audit_logger p5) (user_id (user_permissions p5)) query
                                 (PyInt result) (now_log e)\<rparr>)
                  | (Inl err, s2) \<Rightarrow>
                      (Inl err,
                       p2\<lparr>real_service := Some s2,
                          audit_logger :=
                            log_query (audit_logger p2) (user_id (user_permissions p2)) query
                              PyNone (now_log e)\<rparr>)))"

definition Proxy_begin_transaction ::
  "'s DatabaseService \<Rightarrow> 's DatabaseProxy \<Rightarrow> env \<Rightarrow> (error + bool) \<times> 's DatabaseProxy" where
  "Proxy_begin_transaction svc p e =
     (let (ok, p1) = (case real_service p of
                        None \<Rightarrow> (let (s, q) = get_real_service svc p in Proxy_connect svc q e)
                      | Some s \<Rightarrow> (True, p))
      in if \<not> ok then (Inr False, p1)
         else
           case real_service p1 of
             None \<Rightarrow> (Inr False, p1)
           | Some s \<Rightarrow>
               let (success, s') = svc_begin_transaction svc s;
                   p2 = p1\<lparr>real_service := Some s'\<rparr>
               in if success
                  then (Inr success,
                        p2\<lparr>audit_logger :=
                             log_transaction (audit_logger p2) (user_id (user_permissions p2))
                               ''BEGIN'' (now_log e)\<rparr>)
                  else (Inr success, p2))"

definition Proxy_commit_transaction ::
  "'s DatabaseService \<Rightarrow> 's DatabaseProxy \<Rightarrow> env \<Rightarrow> (error + bool) \<times> 's DatabaseProxy" where
  "Proxy_commit_transaction svc p e =
     (case real_service p of
        None \<Rightarrow> (Inr False, p)
      | Some s \<Rightarrow>
          let (success, s') = svc_commit_transaction svc s;
              p1 = p\<lparr>real_service := Some s'\<rparr>
          in if success
             then (Inr success,
                   p1\<lparr>audit_logger :=
                        log_transaction (audit_logger p1) (user_id (user_permissions p1))
                          ''COMMIT'' (now_log e),
                      query_cache := QueryCache_clear (query_cache p1)\<rparr>)
             else (Inr success, p1))"

definition Proxy_rollback_transaction ::
  "'s DatabaseService \<Rightarrow> 's DatabaseProxy \<Rightarrow> env \<Rightarrow> (error + bool) \<times> 's DatabaseProxy" where
  "Proxy_rollback_transaction svc p e =
     (case real_service p of
        None \<Rightarrow> (Inr False, p)
      | Some s \<Rightarrow>
          let (success, s') = svc_rollback_transaction svc s;
              p1 = p\<lparr>real_service := Some s'\<rparr>
          in if success
             then (Inr success,
                   p1\<lparr>audit_logger :=
                        log_transaction (audit_logger p1) (user_id (user_permissions p1))
                          ''ROLLBACK'' (now_log e)\<rparr>)
             else (Inr success, p1))"

definition Proxy_get_audit_trail :: "'s DatabaseProxy \<Rightarrow> (string \<times> pyval) list list" where
  "Proxy_get_audit_trail p =
     AuditLogger_get_audit_trail (audit_logger p) (user_id (user_permissions p))"

subsection \<open>Invariant of the cache, the entry to evict, example states\<close>

text \<open>
  The two dictionaries of a cache hold the same keys, each once, and at most \<open>max_size\<close>
  of them when \<open>max_size\<close> is positive.
\<close>

definition QueryCache_inv :: "QueryCache \<Rightarrow> bool" where
  "QueryCache_inv c =
     (distinct (map fst (cache c)) \<and> distinct (map fst (access_times c))
      \<and> dict_keys (cache c) = dict_keys (access_times c)
      \<and> (0 < max_size c \<longrightarrow> int (length (cache c)) \<le> max_size c))"

text \<open>
  The entry to evict in the words of the specification: of the entries whose time of last
  access is the smallest, the one that comes first in the order of insertion, which is the
  order of the keys in the dictionary of access times (a key enters it at the end, and a
  key that is stored again keeps its place).
\<close>

definition spec_oldest :: "('k \<times> int) list \<Rightarrow> 'k option" where
  "spec_oldest d =
     (case filter (\<lambda>kt. snd kt = Min (set (map snd d))) d of
        [] \<Rightarrow> None
      | kt # _ \<Rightarrow> Some (fst kt))"

text \<open>
  Concrete states for evaluation. The statements below hold for every digest function;
  where a term is evaluated, the digest is the identity. \<open>example_cache\<close> is a cache of
  capacity 2 after \<open>put\<close> of A at time 0, \<open>put\<close> of B at time 1 and \<open>get\<close> of A at time 2.
\<close>

definition example_md5 :: "string \<Rightarrow> string" where
  "example_md5 s = s"

definition example_result :: QueryResult where
  "example_result = \<lparr> rows = [], affected_rows = 0, execution_time = 0, timestamp = 0 \<rparr>"

definition example_cache :: QueryCache where
  "example_cache =
     snd (QueryCache_get example_md5
            (QueryCache_put example_md5
               (QueryCache_put example_md5 (QueryCache_init 2 300) ''select a'' example_result 0 0)
               ''select b'' example_result 1 1)
            ''SELECT A'' 2 2)"

text \<open>
  \<open>example_tied_cache\<close>: a cache of capacity 3 after \<open>put\<close> of A at 0, \<open>put\<close> of B at 1,
  \<open>put\<close> of A again at 2, \<open>get\<close> of B at 2 and \<open>put\<close> of C at 3. A and B were last
  accessed at the same time; A comes first in the dictionaries, B was cached earlier.
\<close>

definition example_tied_cache :: QueryCache where
  "example_tied_cache =
     QueryCache_put example_md5
       (snd (QueryCache_get example_md5
               (QueryCache_put example_md5
                  (QueryCache_put example_md5
                     (QueryCache_put example_md5 (QueryCache_init 3 300)
                        ''select a'' example_result 0 0)
                     ''select b'' example_result 1 1)
                  ''select a'' example_result 2 2)
               ''select b'' 2 2))
       ''select c'' example_result 3 3"

text \<open>
  The configuration and two of the users of \<open>main\<close>, an environment in which the
  connection succeeds, and \<open>example_proxy\<close>: the proxy of the read-only user after its
  first query, with the store connected and the result in the cache.
\<close>

definition example_config :: DatabaseConfig where
  "example_config =
     \<lparr> host = ''localhost'', port = 5432, database = ''ecommerce'', username = ''app_user'',
       password = ''secret123'', max_connections = 10, connection_timeout = 30 \<rparr>"

definition admin_permissions :: UserPermissions where
  "admin_permissions = \<lparr> user_id = ''admin_user'', permissions = {ADMIN} \<rparr>"

definition readonly_permissions :: UserPermissions where
  "readonly_permissions = \<lparr> user_id = ''readonly_user'', permissions = {SELECT} \<rparr>"

definition example_env :: "int \<Rightarrow> env" where
  "example_env t =
     \<lparr> now_get_check = t, now_get_access = t, now_put_cached = t, now_put_access = t,
       now_log = t, now_log_connection = t, elapsed = 1 / 20, random_connect = 1 / 2,
       now_connected = t, db_elapsed = 1 / 25, now_result = t, random_affected = 3 \<rparr>"

definition example_users_result :: "int \<Rightarrow> QueryResult" where
  "example_users_result t =
     \<lparr> rows = mock_users, affected_rows = 0, execution_time = 1 / 25, timestamp = t \<rparr>"

definition example_proxy :: "RealDatabaseService DatabaseProxy" where
  "example_proxy =
     snd (Proxy_execute_query Real example_md5 (Proxy_init example_config readonly_permissions)
            ''SELECT * FROM users'' (example_env 1000))"

text \<open>
  \<open>example_admin_proxy\<close>: the proxy of the administrator after a first query and
  \<open>begin_transaction\<close>, with the result in the cache and a transaction open.
\<close>

definition example_admin_proxy :: "RealDatabaseService DatabaseProxy" where
  "example_admin_proxy =
     snd (Proxy_begin_transaction Real
            (snd (Proxy_execute_query Real example_md5 (Proxy_init example_config admin_permissions)
                    ''SELECT * FROM users'' (example_env 1000)))
            (example_env 1500))"

text \<open>
  Reads between two calls. \<open>example_later_proxy\<close> is \<open>example_proxy\<close> after a query of
  another table. \<open>example_reads n\<close> issues the queries \<open>example_query 0\<close>, ...,
  \<open>example_query (n - 1)\<close> of \<open>fetch_user_data\<close> for the user ids 1, 11, 111, ..., each
  through \<open>execute_query\<close>; \<open>example_key i\<close> is the cache key of the \<open>i\<close>-th.
  \<open>example_filled n\<close> is the cache of \<open>example_proxy\<close> after the first \<open>n\<close> of them, while
  it has room.
\<close>

definition example_later_proxy :: "RealDatabaseService DatabaseProxy" where
  "example_later_proxy =
     snd (Proxy_execute_query Real example_md5 example_proxy ''SELECT * FROM products''
            (example_env 1500))"

definition example_query :: "nat \<Rightarrow> string" where
  "example_query n = ''SELECT * FROM users WHERE id = '' @ replicate (Suc n) CHR ''1''"

definition example_key :: "nat \<Rightarrow> string" where
  "example_key n = ''select * from users where id = '' @ replicate (Suc n) CHR ''1''"

definition example_reads ::
  "nat \<Rightarrow> RealDatabaseService DatabaseProxy \<Rightarrow> RealDatabaseService DatabaseProxy" where
  "example_reads n p =
     fold (\<lambda>i p. snd (Proxy_execute_query Real example_md5 p (example_query i) (example_env 1500)))
       [0..<n] p"

definition example_filled :: "nat \<Rightarrow> QueryCache" where
  "example_filled n =
     \<lparr> max_size = 50, ttl_seconds = 300,
       cache = (''select * from users'', (example_users_result 1000, 1000))
                 # map (\<lambda>i. (example_key i, (example_users_result 1500, 1500))) [0..<n],
       access_times = (''select * from users'', 1000)
                 # map (\<lambda>i. (example_key i, 1500)) [0..<n] \<rparr>"

text \<open>
  A store whose connection is closed between the proxy's check of it and its execution of
  the query (as a \<open>disconnect\<close> on another thread does): \<open>RealDatabaseService\<close> with
  \<open>execute_query\<close> run on the disconnected store.
\<close>

definition Real_dropped :: "RealDatabaseService DatabaseService" where
  "Real_dropped =
     Real\<lparr>svc_execute_query := (\<lambda>e s query. Real_execute_query e (snd (Real_disconnect s)) query)\<rparr>"

section \<open>Properties\<close>

subsection \<open>Dictionaries\<close>

lemma map_of_delete_same: "map_of (AList.delete k xs) k = None"
  by (simp add: AList.delete_conv')

lemma dict_keys_delete: "dict_keys (AList.delete k xs) = dict_keys xs - {k}"
  unfolding dict_keys_def by (induction xs) auto

lemma dict_keys_update: "dict_keys (AList.update k v xs) = insert k (dict_keys xs)"
  unfolding dict_keys_def by (induction xs) auto

lemma dict_keys_map_of: "map_of xs k = Some v \<Longrightarrow> k \<in> dict_keys xs"
  unfolding dict_keys_def by (metis map_of_eq_None_iff option.distinct(1) set_map)

lemma length_delete_distinct:
  "distinct (map fst xs) \<Longrightarrow> k \<in> dict_keys xs \<Longrightarrow> Suc (length (AList.delete k xs)) = length xs"
proof (induction xs)
  case Nil then show ?case by (simp add: dict_keys_def)
next
  case (Cons x xs)
  show ?case
  proof (cases "fst x = k")
    case True
    with Cons.prems have "k \<notin> fst ` set xs" by auto
    then have "AList.delete k xs = xs" by (simp add: AList.delete_notin_dom delete_id)
    with True show ?thesis by (cases x) simp
  next
    case False
    with Cons show ?thesis by (cases x) (auto simp: dict_keys_def)
  qed
qed

lemma length_update_le: "length (AList.update k v xs) \<le> Suc (length xs)"
  by (induction xs) auto

lemma length_delete_le': "length (AList.delete k xs) \<le> length xs"
  by (induction xs) auto

lemma min_by_mem: "min_by b xs \<in> set (b # xs)"
  by (induction xs arbitrary: b) (auto split: if_splits)

lemma map_of_not_in_keys: "k \<notin> dict_keys xs \<Longrightarrow> map_of xs k = None"
  by (simp add: dict_keys_def map_of_eq_None_iff)

lemma map_of_update_same: "map_of (AList.update k v xs) k = Some v"
  by (simp add: AList.update_conv')

subsection \<open>The cache keeps its invariant\<close>

lemma inv_init: "QueryCache_inv (QueryCache_init ms ttl)"
  by (simp add: QueryCache_inv_def QueryCache_init_def dict_keys_def)

lemma inv_clear: "QueryCache_inv c \<Longrightarrow> QueryCache_inv (QueryCache_clear c)"
  by (simp add: QueryCache_inv_def QueryCache_clear_def dict_keys_def)

lemma inv_delete_both:
  assumes "QueryCache_inv c"
  shows "QueryCache_inv (c\<lparr>cache := AList.delete k (cache c),
           access_times := AList.delete k (access_times c)\<rparr>)"
proof -
  have "int (length (AList.delete k (cache c))) \<le> int (length (cache c))"
    using length_delete_le'[of k "cache c"] by simp
  then have "0 < max_size c \<longrightarrow> int (length (AList.delete k (cache c))) \<le> max_size c"
    using assms unfolding QueryCache_inv_def by linarith
  then show ?thesis
    using assms unfolding QueryCache_inv_def
    by (simp add: AList.distinct_delete dict_keys_delete)
qed

lemma inv_get:
  assumes "QueryCache_inv c"
  shows "QueryCache_inv (snd (QueryCache_get md5 c query now1 now2))"
proof (cases "map_of (cache c) (get_cache_key md5 query)")
  case None
  then show ?thesis using assms by (simp add: QueryCache_get_def)
next
  case (Some a)
  obtain v t where a: "a = (v, t)" by (cases a)
  let ?k = "get_cache_key md5 query"
  have kin: "?k \<in> dict_keys (cache c)"
    using Some by (rule dict_keys_map_of)
  then have kin': "?k \<in> dict_keys (access_times c)"
    using assms by (simp add: QueryCache_inv_def)
  show ?thesis
  proof (cases "now1 - t < timedelta_seconds (ttl_seconds c)")
    case True
    have res: "snd (QueryCache_get md5 c query now1 now2)
        = c\<lparr>access_times := AList.update ?k now2 (access_times c)\<rparr>"
      using True Some a by (simp add: QueryCache_get_def Let_def)
    have "insert ?k (dict_keys (access_times c)) = dict_keys (access_times c)"
      using kin' by auto
    then show ?thesis unfolding res using assms
      by (simp add: QueryCache_inv_def AList.distinct_update dict_keys_update)
  next
    case False
    have res: "snd (QueryCache_get md5 c query now1 now2)
        = c\<lparr>cache := AList.delete ?k (cache c),
             access_times := AList.delete ?k (access_times c)\<rparr>"
      using False Some a kin' by (simp add: QueryCache_get_def Let_def)
    show ?thesis unfolding res using assms by (rule inv_delete_both)
  qed
qed

lemma evict_oldest_nonempty:
  assumes "QueryCache_inv c" and "access_times c = x # xs"
  shows "fst (min_by x xs) \<in> dict_keys (cache c)"
    and "evict_oldest c = c\<lparr>cache := AList.delete (fst (min_by x xs)) (cache c),
           access_times := AList.delete (fst (min_by x xs)) (access_times c)\<rparr>"
proof -
  let ?k = "fst (min_by x xs)"
  have "?k \<in> fst ` set (x # xs)" using min_by_mem[of x xs] by (rule imageI)
  then have "?k \<in> dict_keys (access_times c)"
    unfolding assms(2) dict_keys_def by simp
  then show kin: "?k \<in> dict_keys (cache c)" using assms(1) by (simp add: QueryCache_inv_def)
  show "evict_oldest c = c\<lparr>cache := AList.delete ?k (cache c),
      access_times := AList.delete ?k (access_times c)\<rparr>"
    using kin by (simp add: evict_oldest_def assms(2) Let_def)
qed

lemma inv_evict: "QueryCache_inv c \<Longrightarrow> QueryCache_inv (evict_oldest c)"
proof (cases "access_times c")
  case Nil
  assume "QueryCache_inv c"
  then show ?thesis using Nil by (simp add: evict_oldest_def)
next
  case (Cons x xs)
  assume i: "QueryCache_inv c"
  show ?thesis unfolding evict_oldest_nonempty(2)[OF i Cons] using i by (rule inv_delete_both)
qed

lemma max_size_evict: "max_size (evict_oldest c) = max_size c"
  by (simp add: evict_oldest_def Let_def split: list.splits)

lemma length_evict:
  assumes "QueryCache_inv c" and "0 < max_size c" and "int (length (cache c)) \<ge> max_size c"
  shows "int (length (cache (evict_oldest c))) = max_size c - 1"
proof -
  have len: "int (length (cache c)) = max_size c" using assms by (simp add: QueryCache_inv_def)
  then have "cache c \<noteq> []" using assms(2) by auto
  then have "dict_keys (cache c) \<noteq> {}" by (simp add: dict_keys_def)
  then have "access_times c \<noteq> []" using assms(1) by (auto simp: QueryCache_inv_def dict_keys_def)
  then obtain x xs where at: "access_times c = x # xs" by (cases "access_times c") auto
  let ?k = "fst (min_by x xs)"
  note ev = evict_oldest_nonempty[OF assms(1) at]
  have "distinct (map fst (cache c))" using assms(1) by (simp add: QueryCache_inv_def)
  then have "Suc (length (AList.delete ?k (cache c))) = length (cache c)"
    using ev(1) by (rule length_delete_distinct)
  then show ?thesis unfolding ev(2) using len by simp
qed

lemma inv_put:
  assumes "QueryCache_inv c"
  shows "QueryCache_inv (QueryCache_put md5 c query result now1 now2)"
proof -
  define c1 where "c1 = (if int (length (cache c)) \<ge> max_size c then evict_oldest c else c)"
  have ms: "max_size c1 = max_size c" by (simp add: c1_def max_size_evict)
  have i1: "QueryCache_inv c1" using assms by (simp add: c1_def inv_evict)
  have l: "0 < max_size c \<longrightarrow> int (length (cache c1)) < max_size c"
    using length_evict[of c] assms by (auto simp: c1_def)
  have "int (length (AList.update k v (cache c1))) \<le> int (length (cache c1)) + 1" for k v
    using length_update_le[of k v "cache c1"] by linarith
  with l have l': "0 < max_size c \<longrightarrow> int (length (AList.update k v (cache c1))) \<le> max_size c" for k v
    by (smt (verit))
  have put: "QueryCache_put md5 c query result now1 now2 =
     c1\<lparr>cache := AList.update (get_cache_key md5 query) (result, now1) (cache c1),
        access_times := AList.update (get_cache_key md5 query) now2 (access_times c1)\<rparr>"
    by (simp add: QueryCache_put_def Let_def c1_def)
  show ?thesis
    unfolding put using i1 l' ms unfolding QueryCache_inv_def
    by (simp add: AList.distinct_update dict_keys_update)
qed

lemma reachable_inv: "QueryCache_reachable md5 c \<Longrightarrow> QueryCache_inv c"
  by (induction rule: QueryCache_reachable.induct) (simp_all add: inv_init inv_get inv_put inv_clear)


subsection \<open>\<open>min\<close> over the access times picks the entry of the specification\<close>

lemma Min_insert2:
  fixes a b :: int
  assumes "finite S"
  shows "Min (insert a (insert b S)) = Min (insert (if b < a then b else a) S)"
proof (cases "S = {}")
  case True
  then show ?thesis by (simp add: min_def)
next
  case False
  define m where "m = Min S"
  have 1: "Min (insert c S) = min c m" for c
    unfolding m_def by (rule Min_insert[OF assms False])
  have 2: "Min (insert a (insert b S)) = min a (Min (insert b S))"
    by (rule Min_insert) (use assms in simp_all)
  show ?thesis unfolding 2 1 by (simp add: min_def)
qed

lemma min_by_filter:
  "filter (\<lambda>kt. snd kt = Min (set (map snd (b # xs)))) (b # xs) \<noteq> [] \<and>
   min_by b xs = hd (filter (\<lambda>kt. snd kt = Min (set (map snd (b # xs)))) (b # xs))"
proof (induction xs arbitrary: b)
  case Nil
  show ?case by simp
next
  case (Cons x xs)
  let ?b = "if snd x < snd b then x else b"
  have sb: "snd ?b = (if snd x < snd b then snd x else snd b)" by simp
  have M: "Min (set (map snd (b # x # xs))) = Min (set (map snd (?b # xs)))"
    unfolding list.map list.set sb by (rule Min_insert2) simp
  have le: "Min (set (map snd (b # x # xs))) \<le> snd b" "Min (set (map snd (b # x # xs))) \<le> snd x"
    by (rule Min_le; simp)+
  show ?case
    using Cons.IH[of ?b] le unfolding M[symmetric]
    by (auto split: if_splits)
qed

lemma min_by_spec: "spec_oldest (x # xs) = Some (fst (min_by x xs))"
proof -
  from min_by_filter[of x xs] show ?thesis
    unfolding spec_oldest_def by (cases "filter (\<lambda>kt. snd kt = Min (set (map snd (x # xs)))) (x # xs)") auto
qed

subsection \<open>Evaluation of concrete states\<close>

lemmas string_eval = upper_def lower_def upper_char_def lower_char_def strip_def isspace_def
  startswith_def

lemmas cache_eval = QueryCache_init_def QueryCache_get_def QueryCache_put_def QueryCache_clear_def
  evict_oldest_def get_cache_key_def timedelta_seconds_def dict_keys_def example_md5_def Let_def

lemma example_cache_eq:
  "example_cache = \<lparr> max_size = 2, ttl_seconds = 300,
      cache = [(''select a'', (example_result, 0)), (''select b'', (example_result, 1))],
      access_times = [(''select a'', 2), (''select b'', 1)] \<rparr>"
  by (simp add: example_cache_def cache_eval string_eval)

subsection \<open>The permission gate\<close>

text \<open>
  C8. A credential whose permissions contain \<open>ADMIN\<close> passes the check of every kind of
  operation: each of the five \<open>can_execute\<close> checks is true, and \<open>has_permission\<close> is true
  of every text that it classifies, that is, whose upper-cased form begins with SELECT,
  INSERT, UPDATE, DELETE, CREATE, ALTER or DROP. (A text of no kind is refused to every
  credential.)
\<close>

theorem admin_has_permission:
  assumes "ADMIN \<in> permissions u"
  shows "can_execute_select u \<and> can_execute_insert u \<and> can_execute_update u
       \<and> can_execute_delete u \<and> can_execute_ddl u
       \<and> has_permission u operation =
           (startswith (upper operation) ''SELECT'' \<or> startswith (upper operation) ''INSERT''
            \<or> startswith (upper operation) ''UPDATE'' \<or> startswith (upper operation) ''DELETE''
            \<or> startswith (upper operation) ''CREATE'' \<or> startswith (upper operation) ''ALTER''
            \<or> startswith (upper operation) ''DROP'')"
  using assms
  by (simp add: has_permission_def Let_def can_execute_select_def can_execute_insert_def
      can_execute_update_def can_execute_delete_def can_execute_ddl_def)

theorem admin_has_permission_witness:
  "ADMIN \<in> permissions \<lparr> user_id = ''admin_user'', permissions = {ADMIN} \<rparr>
   \<and> has_permission \<lparr> user_id = ''admin_user'', permissions = {ADMIN} \<rparr> ''drop table t''
   \<and> \<not> has_permission \<lparr> user_id = ''admin_user'', permissions = {ADMIN} \<rparr> ''GRANT ALL''"
  using admin_has_permission [of "\<lparr> user_id = ''admin_user'', permissions = {ADMIN} \<rparr>" "''drop table t''"]
    admin_has_permission [of "\<lparr> user_id = ''admin_user'', permissions = {ADMIN} \<rparr>" "''GRANT ALL''"]
  by (simp add: string_eval)

subsection \<open>Expiry at lookup\<close>

text \<open>
  C4. For an entry cached under the key of \<open>query\<close> at \<open>inserted_at\<close>: a lookup at \<open>now\<close>
  with \<open>now - inserted_at \<ge> ttl\<close> returns absent and removes the entry (from both
  dictionaries); a lookup with \<open>now - inserted_at < ttl\<close> returns the stored value, leaves
  the cached entries as they are and sets the time of last access to the clock reading
  \<open>now2\<close> taken for it (which is \<open>now\<close> when the lookup is one instant).
\<close>

theorem QueryCache_get_ttl:
  assumes "map_of (cache c) (get_cache_key md5 query) = Some (v, inserted_at)"
  shows "(now - inserted_at \<ge> timedelta_seconds (ttl_seconds c) \<longrightarrow>
            fst (QueryCache_get md5 c query now now2) = None
          \<and> map_of (cache (snd (QueryCache_get md5 c query now now2))) (get_cache_key md5 query) = None
          \<and> map_of (access_times (snd (QueryCache_get md5 c query now now2))) (get_cache_key md5 query) = None)
       \<and> (now - inserted_at < timedelta_seconds (ttl_seconds c) \<longrightarrow>
            fst (QueryCache_get md5 c query now now2) = Some v
          \<and> cache (snd (QueryCache_get md5 c query now now2)) = cache c
          \<and> map_of (access_times (snd (QueryCache_get md5 c query now now2))) (get_cache_key md5 query) = Some now2)"
  using assms
  by (simp add: QueryCache_get_def Let_def map_of_delete_same map_of_update_same map_of_not_in_keys
      del: map_of_eq_Some_iff)

theorem QueryCache_get_ttl_witness:
  "map_of (cache example_cache) (get_cache_key example_md5 ''Select B '') = Some (example_result, 1)
   \<and> fst (QueryCache_get example_md5 example_cache ''Select B '' 300000001 300000001) = None
   \<and> cache (snd (QueryCache_get example_md5 example_cache ''Select B '' 300000001 300000001))
        = [(''select a'', (example_result, 0))]
   \<and> fst (QueryCache_get example_md5 example_cache ''Select B '' 300000000 300000000)
        = Some example_result
   \<and> access_times (snd (QueryCache_get example_md5 example_cache ''Select B '' 300000000 300000000))
        = [(''select a'', 2), (''select b'', 300000000)]"
proof -
  have h: "map_of (cache example_cache) (get_cache_key example_md5 ''Select B '')
             = Some (example_result, 1)"
    by (simp add: example_cache_eq get_cache_key_def example_md5_def string_eval)
  show ?thesis
    using h QueryCache_get_ttl [OF h, of 300000001 300000001]
      QueryCache_get_ttl [OF h, of 300000000 300000000]
    by (simp add: example_cache_eq cache_eval string_eval)
qed

subsection \<open>Capacity and eviction\<close>

text \<open>
  C3, as the claim states it, fails in three places. A cache of capacity 0 holds one entry
  after a \<open>put\<close>: \<open>evict_oldest\<close> returns at once on an empty cache, and \<open>put\<close> then
  inserts. \<open>put\<close> reads the clock twice, once for the cached time and once for the time of
  last access: with the readings 3 and 4 the new entry has \<open>insertedAt = 3\<close> and
  \<open>lastAccessedAt = 4\<close>. And among entries last accessed at the same time the one evicted
  is the first in the dictionary, not the one cached earliest: in \<open>example_tied_cache\<close> a
  \<open>put\<close> of D evicts A (cached at 2), not B (cached at 1).
\<close>

theorem QueryCache_capacity_counterexample:
  "QueryCache_reachable example_md5
     (QueryCache_put example_md5 (QueryCache_init 0 300) ''select a'' example_result 0 0)
   \<and> \<not> int (length (cache
         (QueryCache_put example_md5 (QueryCache_init 0 300) ''select a'' example_result 0 0)))
       \<le> max_size
           (QueryCache_put example_md5 (QueryCache_init 0 300) ''select a'' example_result 0 0)
   \<and> map_of (cache (QueryCache_put example_md5 (QueryCache_init 2 300) ''select a''
                      example_result 3 4)) ''select a'' = Some (example_result, 3)
   \<and> map_of (access_times (QueryCache_put example_md5 (QueryCache_init 2 300) ''select a''
                      example_result 3 4)) ''select a'' = Some 4
   \<and> QueryCache_reachable example_md5 example_tied_cache
   \<and> cache example_tied_cache
        = [(''select a'', (example_result, 2)), (''select b'', (example_result, 1)),
           (''select c'', (example_result, 3))]
   \<and> access_times example_tied_cache
        = [(''select a'', 2), (''select b'', 2), (''select c'', 3)]
   \<and> cache (QueryCache_put example_md5 example_tied_cache ''select d'' example_result 4 4)
        = [(''select b'', (example_result, 1)), (''select c'', (example_result, 3)),
           (''select d'', (example_result, 4))]"
proof -
  have 1: "QueryCache_reachable example_md5
     (QueryCache_put example_md5 (QueryCache_init 0 300) ''select a'' example_result 0 0)"
    by (intro reach_put reach_init)
  have 2: "QueryCache_reachable example_md5 example_tied_cache"
    unfolding example_tied_cache_def by (intro reach_get reach_put reach_init)
  have 3: "example_tied_cache = \<lparr> max_size = 3, ttl_seconds = 300,
      cache = [(''select a'', (example_result, 2)), (''select b'', (example_result, 1)),
               (''select c'', (example_result, 3))],
      access_times = [(''select a'', 2), (''select b'', 2), (''select c'', 3)] \<rparr>"
    by (simp add: example_tied_cache_def cache_eval string_eval)
  show ?thesis using 1 2 unfolding 3 by (simp add: cache_eval string_eval)
qed

text \<open>
  C3, amended. A cache of capacity \<open>max_size \<ge> 1\<close>, in any state that \<open>get\<close>, \<open>put\<close> and
  \<open>clear\<close> produce from a new cache, holds at most \<open>max_size\<close> entries, before and after a
  \<open>put\<close>. After a \<open>put\<close> the entry of the key is the new result; its cached time is the
  first clock reading \<open>now1\<close> of the \<open>put\<close> and its time of last access the second,
  \<open>now2\<close> (both are \<open>now\<close> when the clock reads \<open>now\<close> twice). A \<open>put\<close> into a cache at
  capacity first removes exactly one entry, from both dictionaries: the one with the
  smallest time of last access, the first in the order of the dictionary among equals.
\<close>

theorem QueryCache_capacity:
  assumes "QueryCache_reachable md5 c" and "0 < max_size c"
  shows "int (length (cache c)) \<le> max_size c
       \<and> int (length (cache (QueryCache_put md5 c query result now1 now2))) \<le> max_size c
       \<and> map_of (cache (QueryCache_put md5 c query result now1 now2)) (get_cache_key md5 query)
           = Some (result, now1)
       \<and> map_of (access_times (QueryCache_put md5 c query result now1 now2)) (get_cache_key md5 query)
           = Some now2
       \<and> (int (length (cache c)) \<ge> max_size c \<longrightarrow>
            (\<exists>oldest. spec_oldest (access_times c) = Some oldest
               \<and> oldest \<in> dict_keys (cache c)
               \<and> Suc (length (AList.delete oldest (cache c))) = length (cache c)
               \<and> cache (QueryCache_put md5 c query result now1 now2)
                   = AList.update (get_cache_key md5 query) (result, now1)
                       (AList.delete oldest (cache c))
               \<and> access_times (QueryCache_put md5 c query result now1 now2)
                   = AList.update (get_cache_key md5 query) now2
                       (AList.delete oldest (access_times c))))"
proof -
  have i: "QueryCache_inv c" using assms(1) by (rule reachable_inv)
  have i': "QueryCache_inv (QueryCache_put md5 c query result now1 now2)" using i by (rule inv_put)
  have ms: "max_size (QueryCache_put md5 c query result now1 now2) = max_size c"
    by (simp add: QueryCache_put_def Let_def max_size_evict)
  have 1: "int (length (cache c)) \<le> max_size c" using i assms(2) by (simp add: QueryCache_inv_def)
  have 2: "int (length (cache (QueryCache_put md5 c query result now1 now2))) \<le> max_size c"
    using i' assms(2) ms by (simp add: QueryCache_inv_def)
  have 3: "map_of (cache (QueryCache_put md5 c query result now1 now2)) (get_cache_key md5 query)
           = Some (result, now1)"
    by (simp add: QueryCache_put_def Let_def map_of_update_same)
  have 4: "map_of (access_times (QueryCache_put md5 c query result now1 now2)) (get_cache_key md5 query)
           = Some now2"
    by (simp add: QueryCache_put_def Let_def map_of_update_same)
  have 5: "\<exists>oldest. spec_oldest (access_times c) = Some oldest
               \<and> oldest \<in> dict_keys (cache c)
               \<and> Suc (length (AList.delete oldest (cache c))) = length (cache c)
               \<and> cache (QueryCache_put md5 c query result now1 now2)
                   = AList.update (get_cache_key md5 query) (result, now1)
                       (AList.delete oldest (cache c))
               \<and> access_times (QueryCache_put md5 c query result now1 now2)
                   = AList.update (get_cache_key md5 query) now2
                       (AList.delete oldest (access_times c))"
    if full: "int (length (cache c)) \<ge> max_size c"
  proof -
    have "cache c \<noteq> []" using full assms(2) by auto
    then have "dict_keys (cache c) \<noteq> {}" by (simp add: dict_keys_def)
    then have "access_times c \<noteq> []" using i by (auto simp: QueryCache_inv_def dict_keys_def)
    then obtain x xs where at: "access_times c = x # xs" by (cases "access_times c") auto
    note ev = evict_oldest_nonempty[OF i at]
    have d: "distinct (map fst (cache c))" using i by (simp add: QueryCache_inv_def)
    have l: "Suc (length (AList.delete (fst (min_by x xs)) (cache c))) = length (cache c)"
      using d ev(1) by (rule length_delete_distinct)
    have s: "spec_oldest (access_times c) = Some (fst (min_by x xs))"
      unfolding at by (rule min_by_spec)
    have p: "QueryCache_put md5 c query result now1 now2 =
       (evict_oldest c)\<lparr>cache := AList.update (get_cache_key md5 query) (result, now1) (cache (evict_oldest c)),
        access_times := AList.update (get_cache_key md5 query) now2 (access_times (evict_oldest c))\<rparr>"
      using full by (simp add: QueryCache_put_def Let_def)
    show ?thesis
      apply (rule exI[of _ "fst (min_by x xs)"])
      apply (intro conjI s ev(1) l)
       apply (simp add: p ev(2))
      apply (simp add: p ev(2))
      done
  qed
  show ?thesis using 1 2 3 4 5 by blast
qed


theorem QueryCache_capacity_witness:
  "QueryCache_reachable example_md5 example_cache \<and> 0 < max_size example_cache
   \<and> max_size example_cache \<le> int (length (cache example_cache))
   \<and> spec_oldest (access_times example_cache) = Some ''select b''
   \<and> cache (QueryCache_put example_md5 example_cache ''select c'' example_result 3 4)
        = [(''select a'', (example_result, 0)), (''select c'', (example_result, 3))]
   \<and> access_times (QueryCache_put example_md5 example_cache ''select c'' example_result 3 4)
        = [(''select a'', 2), (''select c'', 4)]"
proof -
  have r: "QueryCache_reachable example_md5 example_cache"
    unfolding example_cache_def by (intro reach_get reach_put reach_init)
  have m: "0 < max_size example_cache" by (simp add: example_cache_eq)
  show ?thesis
    using r m QueryCache_capacity [OF r m, of "''select c''" example_result 3 4]
    by (simp add: example_cache_eq cache_eval string_eval spec_oldest_def)
qed

subsection \<open>Evaluation of the store and the proxy\<close>

lemmas store_eval = Real_def Real_init_def Real_connect_def Real_disconnect_def Real_table_def
  Real_execute_query_def Real_execute_update_def Real_begin_transaction_def
  Real_commit_transaction_def Real_rollback_transaction_def Real_is_connected_def

lemmas proxy_eval = Proxy_init_def get_real_service_def check_permissions_def Proxy_connect_def
  permission_message_def Proxy_execute_query_def Proxy_execute_update_def
  Proxy_begin_transaction_def Proxy_commit_transaction_def Proxy_rollback_transaction_def
  has_permission_def can_execute_select_def can_execute_insert_def can_execute_update_def
  can_execute_delete_def can_execute_ddl_def AuditLogger_init_def MetricsCollector_init_def
  log_query_def log_connection_def log_transaction_def record_query_def record_cache_hit_def
  record_cache_miss_def record_connection_def example_config_def admin_permissions_def
  readonly_permissions_def example_env_def

lemma example_proxy_eq:
  "example_proxy =
     \<lparr> config = example_config, user_permissions = readonly_permissions,
       real_service = Some ((Real_init example_config)\<lparr>connected := True, connection_time := Some 1000\<rparr>),
       query_cache = \<lparr> max_size = 50, ttl_seconds = 300,
          cache = [(''select * from users'', (example_users_result 1000, 1000))],
          access_times = [(''select * from users'', 1000)] \<rparr>,
       audit_logger = \<lparr> log_file = ''database_audit.log'',
          logs = [[(''timestamp'', PDatetime 1000), (''user_id'', PStr ''readonly_user''),
                   (''operation'', PStr ''CONNECTION''), (''success'', PBool True)],
                  [(''timestamp'', PDatetime 1000), (''user_id'', PStr ''readonly_user''),
                   (''operation'', PStr ''QUERY''), (''query'', PStr ''SELECT * FROM users''),
                   (''success'', PBool True), (''rows_returned'', PInt 4)]] \<rparr>,
       metrics_collector = \<lparr> query_count = 1, cache_hits = 0, cache_misses = 1,
          total_execution_time = 1 / 20, connection_count = 1 \<rparr> \<rparr>"
  unfolding example_proxy_def
  by (simp add: proxy_eval store_eval cache_eval string_eval example_users_result_def mock_users_def)


lemma get_real_service_eq:
  "get_real_service svc p = (s, p') \<Longrightarrow> p' = p\<lparr>real_service := Some s\<rparr>"
  by (auto simp: get_real_service_def Let_def split: option.splits)

lemma Proxy_connect_eq:
  assumes "Proxy_connect svc p e = (ok, p')"
  shows "query_cache p' = query_cache p"
    and "user_permissions p' = user_permissions p"
    and "query_count (metrics_collector p') = query_count (metrics_collector p)"
    and "cache_hits (metrics_collector p') = cache_hits (metrics_collector p)"
    and "cache_misses (metrics_collector p') = cache_misses (metrics_collector p)"
    and "logs (audit_logger p') = logs (audit_logger p) @
           [[(''timestamp'', PDatetime (now_log_connection e)),
             (''user_id'', PStr (user_id (user_permissions p))),
             (''operation'', PStr ''CONNECTION''), (''success'', PBool ok)]]"
  using assms
  by (auto simp: Proxy_connect_def get_real_service_def Let_def log_connection_def
      record_connection_def split: option.splits prod.splits if_splits)

lemma ensure_connected_eq:
  assumes "(if \<not> svc_is_connected svc s then Proxy_connect svc p e else (True, p)) = (ok, p')"
  shows "query_cache p' = query_cache p"
    and "user_permissions p' = user_permissions p"
    and "query_count (metrics_collector p') = query_count (metrics_collector p)"
    and "cache_hits (metrics_collector p') = cache_hits (metrics_collector p)"
    and "cache_misses (metrics_collector p') = cache_misses (metrics_collector p)"
    and "\<exists>conn. logs (audit_logger p') = logs (audit_logger p) @ conn"
  using assms Proxy_connect_eq[of svc p e ok p']
  by (auto split: if_splits)

lemma ensured_store_exists:
  assumes "get_real_service svc p = (s, p3)"
    and "(if \<not> svc_is_connected svc s then Proxy_connect svc p3 e else (True, p3)) = (ok, p4)"
  shows "real_service p4 \<noteq> None"
  using assms
  by (auto simp: get_real_service_def Proxy_connect_def Let_def
      split: option.splits prod.splits if_splits)

lemma execute_update_Inr:
  assumes "Proxy_execute_update svc p query e = (Inr n, p')"
  shows "\<exists>p2 s2. user_permissions p2 = user_permissions p \<and> query_cache p2 = query_cache p
     \<and> p' = (let p3 = p2\<lparr>real_service := Some s2\<rparr>;
                 p4 = (if \<not> startswith (strip (lower query)) ''select''
                       then p3\<lparr>query_cache := QueryCache_clear (query_cache p3)\<rparr> else p3);
                 p5 = p4\<lparr>metrics_collector := record_query (metrics_collector p4) (elapsed e)\<rparr>
             in p5\<lparr>audit_logger := log_query (audit_logger p5) (user_id (user_permissions p5))
                     query (PyInt n) (now_log e)\<rparr>)"
proof -
  from assms have perm: "check_permissions p query"
    by (auto simp: Proxy_execute_update_def split: if_splits)
  obtain s p1 where g: "get_real_service svc p = (s, p1)" by (cases "get_real_service svc p")
  obtain ok p2 where c: "(if \<not> svc_is_connected svc s then Proxy_connect svc p1 e else (True, p1)) = (ok, p2)"
    by (cases "(if \<not> svc_is_connected svc s then Proxy_connect svc p1 e else (True, p1))")
  have p1: "p1 = p\<lparr>real_service := Some s\<rparr>" using g by (rule get_real_service_eq)
  from assms perm g c obtain s1 s2 where
    "svc_execute_update svc e s1 query = (Inr n, s2)"
    and p': "p' = (let p3 = p2\<lparr>real_service := Some s2\<rparr>;
                 p4 = (if \<not> startswith (strip (lower query)) ''select''
                       then p3\<lparr>query_cache := QueryCache_clear (query_cache p3)\<rparr> else p3);
                 p5 = p4\<lparr>metrics_collector := record_query (metrics_collector p4) (elapsed e)\<rparr>
             in p5\<lparr>audit_logger := log_query (audit_logger p5) (user_id (user_permissions p5))
                     query (PyInt n) (now_log e)\<rparr>)"
    unfolding Proxy_execute_update_def
    by (simp split: if_splits option.splits prod.splits sum.splits add: Let_def)
  have "user_permissions p2 = user_permissions p" "query_cache p2 = query_cache p"
    using ensure_connected_eq(1,2)[OF c] p1 by simp_all
  with p' show ?thesis by blast
qed

subsection \<open>Denied operations\<close>

text \<open>
  C1, as the claim states it, fails in its last part: a denied operation appends no audit
  record at all. The read-only user's \<open>execute_update\<close> of an UPDATE (and
  \<open>execute_query\<close> of it) on a new proxy raises \<open>PermissionError\<close> and leaves the audit
  log empty, where the claim has exactly one record with \<open>success = False\<close>.
\<close>

theorem denied_operation_audit_counterexample:
  "\<not> has_permission readonly_permissions ''UPDATE users SET name = 1 WHERE id = 3''
   \<and> fst (Proxy_execute_update Real (Proxy_init example_config readonly_permissions)
            ''UPDATE users SET name = 1 WHERE id = 3'' (example_env 1000))
       = Inl (PermissionError
           ''User readonly_user does not have permission to execute: UPDATE users SET name = 1 WHERE id = 3'')
   \<and> logs (audit_logger
        (snd (Proxy_execute_update Real (Proxy_init example_config readonly_permissions)
            ''UPDATE users SET name = 1 WHERE id = 3'' (example_env 1000)))) = []
   \<and> logs (audit_logger
        (snd (Proxy_execute_query Real example_md5 (Proxy_init example_config readonly_permissions)
            ''UPDATE users SET name = 1 WHERE id = 3'' (example_env 1000)))) = []"
  by (simp add: proxy_eval string_eval)

text \<open>
  C1, amended. When the credential lacks the permission for the text, \<open>execute_query\<close> and
  \<open>execute_update\<close> raise \<open>PermissionError\<close> and leave the whole state of the proxy as it
  was, for every store: no cache lookup has touched the cache, no method of the store has
  run, the metrics are unchanged and no audit record is appended.
\<close>

theorem denied_operation_has_no_effect:
  assumes "\<not> has_permission (user_permissions p) query"
  shows "Proxy_execute_query svc md5 p query e
           = (Inl (PermissionError (permission_message p query)), p)
       \<and> Proxy_execute_update svc p query e
           = (Inl (PermissionError (permission_message p query)), p)"
  using assms by (simp add: Proxy_execute_query_def Proxy_execute_update_def check_permissions_def)

theorem denied_operation_has_no_effect_witness:
  "\<not> has_permission (user_permissions example_proxy) ''UPDATE users SET name = 1 WHERE id = 3''
   \<and> Proxy_execute_query Real example_md5 example_proxy
         ''UPDATE users SET name = 1 WHERE id = 3'' (example_env 2000)
       = (Inl (PermissionError
           ''User readonly_user does not have permission to execute: UPDATE users SET name = 1 WHERE id = 3''),
          example_proxy)
   \<and> Proxy_execute_update Real example_proxy
         ''UPDATE users SET name = 1 WHERE id = 3'' (example_env 2000)
       = (Inl (PermissionError
           ''User readonly_user does not have permission to execute: UPDATE users SET name = 1 WHERE id = 3''),
          example_proxy)"
proof -
  have h: "\<not> has_permission (user_permissions example_proxy) ''UPDATE users SET name = 1 WHERE id = 3''"
    by (simp add: example_proxy_eq proxy_eval string_eval)
  have m: "permission_message example_proxy ''UPDATE users SET name = 1 WHERE id = 3''
     = ''User readonly_user does not have permission to execute: UPDATE users SET name = 1 WHERE id = 3''"
    by (simp add: example_proxy_eq permission_message_def readonly_permissions_def)
  show ?thesis
    using h denied_operation_has_no_effect [OF h, of Real example_md5 "example_env 2000"]
    unfolding m by simp
qed

subsection \<open>Transactions\<close>

text \<open>
  C9. \<open>rollback_transaction\<close> leaves the cache as it was, entry for entry, whatever the
  store answers.
\<close>

theorem rollback_keeps_cache:
  "query_cache (snd (Proxy_rollback_transaction svc p e)) = query_cache p"
  by (simp add: Proxy_rollback_transaction_def Let_def split: option.splits prod.splits)

text \<open>
  C6, as the claim states it, fails: with no transaction open, \<open>commit_transaction\<close> and
  \<open>rollback_transaction\<close> raise nothing. They return \<open>False\<close>, both on a proxy that has
  no store yet and on one whose store is connected with no transaction begun.
\<close>

theorem commit_rollback_without_transaction_counterexample:
  "fst (Proxy_commit_transaction Real (Proxy_init example_config admin_permissions) (example_env 1000))
     = Inr False
   \<and> fst (Proxy_rollback_transaction Real (Proxy_init example_config admin_permissions) (example_env 1000))
     = Inr False
   \<and> fst (Proxy_commit_transaction Real example_proxy (example_env 2000)) = Inr False
   \<and> fst (Proxy_rollback_transaction Real example_proxy (example_env 2000)) = Inr False"
  by (simp add: example_proxy_eq proxy_eval store_eval)

text \<open>
  C6, amended. When no transaction is open (the proxy has created no store yet, or its
  \<open>RealDatabaseService\<close> is not in a transaction), \<open>commit_transaction\<close> returns \<open>False\<close>
  and \<open>rollback_transaction\<close> returns \<open>False\<close>; neither raises, and the state of the
  proxy (cache, audit log, store) is unchanged.
\<close>

theorem commit_rollback_without_transaction:
  assumes "real_service p = None \<or> (\<exists>s. real_service p = Some s \<and> \<not> in_transaction s)"
  shows "Proxy_commit_transaction Real p e = (Inr False, p)
       \<and> Proxy_rollback_transaction Real p e = (Inr False, p)"
  using assms
  by (auto simp: Proxy_commit_transaction_def Proxy_rollback_transaction_def Real_def
      Real_commit_transaction_def Real_rollback_transaction_def)

theorem commit_rollback_without_transaction_witness:
  "(real_service example_proxy = None
      \<or> (\<exists>s. real_service example_proxy = Some s \<and> \<not> in_transaction s))
   \<and> Proxy_commit_transaction Real example_proxy (example_env 2000) = (Inr False, example_proxy)
   \<and> Proxy_rollback_transaction Real example_proxy (example_env 2000) = (Inr False, example_proxy)"
proof -
  have h: "real_service example_proxy = None
      \<or> (\<exists>s. real_service example_proxy = Some s \<and> \<not> in_transaction s)"
    by (simp add: example_proxy_eq Real_init_def)
  show ?thesis
    using h commit_rollback_without_transaction [OF h, of "example_env 2000"] by simp
qed


subsection \<open>Updates\<close>

lemma example_admin_proxy_eq:
  "example_admin_proxy =
     \<lparr> config = example_config, user_permissions = admin_permissions,
       real_service = Some ((Real_init example_config)\<lparr>connected := True, in_transaction := True,
          connection_time := Some 1000\<rparr>),
       query_cache = \<lparr> max_size = 50, ttl_seconds = 300,
          cache = [(''select * from users'', (example_users_result 1000, 1000))],
          access_times = [(''select * from users'', 1000)] \<rparr>,
       audit_logger = \<lparr> log_file = ''database_audit.log'',
          logs = [[(''timestamp'', PDatetime 1000), (''user_id'', PStr ''admin_user''),
                   (''operation'', PStr ''CONNECTION''), (''success'', PBool True)],
                  [(''timestamp'', PDatetime 1000), (''user_id'', PStr ''admin_user''),
                   (''operation'', PStr ''QUERY''), (''query'', PStr ''SELECT * FROM users''),
                   (''success'', PBool True), (''rows_returned'', PInt 4)],
                  [(''timestamp'', PDatetime 1500), (''user_id'', PStr ''admin_user''),
                   (''operation'', PStr ''TRANSACTION_BEGIN''), (''success'', PBool True)]] \<rparr>,
       metrics_collector = \<lparr> query_count = 1, cache_hits = 0, cache_misses = 1,
          total_execution_time = 1 / 20, connection_count = 1 \<rparr> \<rparr>"
  unfolding example_admin_proxy_def
  by (simp add: proxy_eval store_eval cache_eval string_eval example_users_result_def mock_users_def)

lemma example_update:
  "Proxy_execute_update Real example_admin_proxy ''UPDATE users SET role = 1 WHERE id = 1''
     (example_env 2000)
   = (Inr 3, snd (Proxy_execute_update Real example_admin_proxy
        ''UPDATE users SET role = 1 WHERE id = 1'' (example_env 2000)))"
  by (simp add: prod_eq_iff example_admin_proxy_eq proxy_eval store_eval string_eval)

lemma example_commit:
  "Proxy_commit_transaction Real example_admin_proxy (example_env 2000)
   = (Inr True, snd (Proxy_commit_transaction Real example_admin_proxy (example_env 2000)))"
  by (simp add: prod_eq_iff example_admin_proxy_eq proxy_eval store_eval)

text \<open>
  C10. The audit record of an \<open>execute_update\<close> that returns a row count \<open>n\<close> is the last
  of the log; its \<open>success\<close> is \<open>True\<close> and its \<open>rows_returned\<close> is 0 whatever \<open>n\<close> is
  (the count is an \<open>int\<close>, which has no attribute \<open>rows\<close>).
\<close>

theorem update_audit_rows_returned:
  assumes "Proxy_execute_update svc p query e = (Inr n, p')"
  shows "logs (audit_logger p') \<noteq> []
       \<and> last (logs (audit_logger p'))
           = [(''timestamp'', PDatetime (now_log e)),
              (''user_id'', PStr (user_id (user_permissions p))),
              (''operation'', PStr ''QUERY''),
              (''query'', PStr query),
              (''success'', PBool True),
              (''rows_returned'', PInt 0)]"
proof -
  from execute_update_Inr[OF assms] obtain p2 s2 where
    "user_permissions p2 = user_permissions p"
    and "p' = (let p3 = p2\<lparr>real_service := Some s2\<rparr>;
                 p4 = (if \<not> startswith (strip (lower query)) ''select''
                       then p3\<lparr>query_cache := QueryCache_clear (query_cache p3)\<rparr> else p3);
                 p5 = p4\<lparr>metrics_collector := record_query (metrics_collector p4) (elapsed e)\<rparr>
             in p5\<lparr>audit_logger := log_query (audit_logger p5) (user_id (user_permissions p5))
                     query (PyInt n) (now_log e)\<rparr>)"
    by blast
  then show ?thesis by (simp add: Let_def log_query_def)
qed

theorem update_audit_rows_returned_witness:
  "Proxy_execute_update Real example_admin_proxy ''UPDATE users SET role = 1 WHERE id = 1''
     (example_env 2000)
   = (Inr 3, snd (Proxy_execute_update Real example_admin_proxy
        ''UPDATE users SET role = 1 WHERE id = 1'' (example_env 2000)))
   \<and> last (logs (audit_logger (snd (Proxy_execute_update Real example_admin_proxy
        ''UPDATE users SET role = 1 WHERE id = 1'' (example_env 2000)))))
     = [(''timestamp'', PDatetime 2000), (''user_id'', PStr ''admin_user''),
        (''operation'', PStr ''QUERY''),
        (''query'', PStr ''UPDATE users SET role = 1 WHERE id = 1''),
        (''success'', PBool True), (''rows_returned'', PInt 0)]"
  using example_update update_audit_rows_returned [OF example_update]
  by (simp add: example_admin_proxy_eq admin_permissions_def example_env_def)

text \<open>
  C2, as the claim states it, fails for a text that begins with \<open>select\<close>: the store
  executes the update, \<open>execute_update\<close> returns its row count, and the guard on the text
  keeps the cache as it was.
\<close>

theorem write_clears_cache_counterexample:
  "fst (Proxy_execute_update Real example_proxy ''SELECT * FROM users'' (example_env 2000)) = Inr 3
   \<and> cache (query_cache
        (snd (Proxy_execute_update Real example_proxy ''SELECT * FROM users'' (example_env 2000))))
      = [(''select * from users'', (example_users_result 1000, 1000))]"
  by (simp add: example_proxy_eq proxy_eval store_eval string_eval)

text \<open>
  C2, amended. After an \<open>execute_update\<close> that returns a row count (the store has executed
  the update) and whose text, lower-cased and stripped, does not begin with \<open>select\<close>, and
  after a \<open>commit_transaction\<close> that returns \<open>True\<close>, the cache holds no entries.
\<close>

theorem write_clears_cache:
  "(Proxy_execute_update svc p query e = (Inr n, p1)
      \<and> \<not> startswith (strip (lower query)) ''select''
      \<longrightarrow> cache (query_cache p1) = [] \<and> access_times (query_cache p1) = [])
   \<and> (Proxy_commit_transaction svc p e = (Inr True, p2)
      \<longrightarrow> cache (query_cache p2) = [] \<and> access_times (query_cache p2) = [])"
proof (intro conjI impI)
  assume a: "Proxy_execute_update svc p query e = (Inr n, p1)
      \<and> \<not> startswith (strip (lower query)) ''select''"
  from execute_update_Inr[of svc p query e n p1] a obtain q s2 where
    "p1 = (let p3 = q\<lparr>real_service := Some s2\<rparr>;
                 p4 = (if \<not> startswith (strip (lower query)) ''select''
                       then p3\<lparr>query_cache := QueryCache_clear (query_cache p3)\<rparr> else p3);
                 p5 = p4\<lparr>metrics_collector := record_query (metrics_collector p4) (elapsed e)\<rparr>
             in p5\<lparr>audit_logger := log_query (audit_logger p5) (user_id (user_permissions p5))
                     query (PyInt n) (now_log e)\<rparr>)"
    by blast
  with a show "cache (query_cache p1) = []" "access_times (query_cache p1) = []"
    by (simp_all add: Let_def QueryCache_clear_def)
next
  assume "Proxy_commit_transaction svc p e = (Inr True, p2)"
  then show "cache (query_cache p2) = []" "access_times (query_cache p2) = []"
    by (auto simp: Proxy_commit_transaction_def Let_def QueryCache_clear_def
        split: option.splits prod.splits if_splits)
qed

theorem write_clears_cache_witness:
  "cache (query_cache example_admin_proxy) \<noteq> []
   \<and> Proxy_execute_update Real example_admin_proxy ''UPDATE users SET role = 1 WHERE id = 1''
        (example_env 2000)
      = (Inr 3, snd (Proxy_execute_update Real example_admin_proxy
          ''UPDATE users SET role = 1 WHERE id = 1'' (example_env 2000)))
   \<and> \<not> startswith (strip (lower ''UPDATE users SET role = 1 WHERE id = 1'')) ''select''
   \<and> cache (query_cache (snd (Proxy_execute_update Real example_admin_proxy
          ''UPDATE users SET role = 1 WHERE id = 1'' (example_env 2000)))) = []
   \<and> Proxy_commit_transaction Real example_admin_proxy (example_env 2000)
      = (Inr True, snd (Proxy_commit_transaction Real example_admin_proxy (example_env 2000)))
   \<and> cache (query_cache (snd (Proxy_commit_transaction Real example_admin_proxy
          (example_env 2000)))) = []"
proof -
  have s: "\<not> startswith (strip (lower ''UPDATE users SET role = 1 WHERE id = 1'')) ''select''"
    by (simp add: string_eval)
  have n: "cache (query_cache example_admin_proxy) \<noteq> []"
    by (simp add: example_admin_proxy_eq)
  show ?thesis
    using n s example_update example_commit
      write_clears_cache [of Real example_admin_proxy "''UPDATE users SET role = 1 WHERE id = 1''"
        "example_env 2000" 3
        "snd (Proxy_execute_update Real example_admin_proxy
          ''UPDATE users SET role = 1 WHERE id = 1'' (example_env 2000))"
        "snd (Proxy_commit_transaction Real example_admin_proxy (example_env 2000))"]
    by blast
qed

subsection \<open>A store that raises during a query\<close>

lemma get_miss_cache:
  assumes "QueryCache_get md5 c query now1 now2 = (None, c1)"
  shows "set (cache c1) \<subseteq> set (cache c)"
  using assms
  by (auto simp: QueryCache_get_def Let_def AList.delete_eq split: option.splits if_splits)

lemmas dropped_eval = Real_dropped_def store_eval Let_def

text \<open>
  C7. Let \<open>execute_query\<close> pass the permission check, miss the cache (\<open>c1\<close> is the cache
  after the lookup), hold a connected store (\<open>p4\<close> is the proxy once the connection is
  ensured, \<open>s1\<close> its store), and let the store's \<open>execute_query\<close> raise \<open>err\<close>. Then the
  proxy raises \<open>err\<close>; the audit log gains, as its last record, the record of the attempt
  with \<open>success = False\<close> and \<open>rows_returned = 0\<close>; the cache is the one the lookup left,
  which has no entry that was not there before; the query count is unchanged.
\<close>

theorem store_error_in_execute_query:
  assumes perm: "has_permission (user_permissions p) query"
    and miss: "QueryCache_get md5 (query_cache p) query (now_get_check e) (now_get_access e)
                 = (None, c1)"
    and svc: "get_real_service svc
                (p\<lparr>query_cache := c1,
                   metrics_collector := record_cache_miss (metrics_collector p)\<rparr>) = (s, p3)"
    and conn: "(if \<not> svc_is_connected svc s then Proxy_connect svc p3 e else (True, p3))
                 = (True, p4)"
    and store: "real_service p4 = Some s1"
    and raises: "svc_execute_query svc e s1 query = (Inl err, s2)"
  shows "fst (Proxy_execute_query svc md5 p query e) = Inl err
       \<and> logs (audit_logger (snd (Proxy_execute_query svc md5 p query e)))
           = logs (audit_logger p4) @
             [[(''timestamp'', PDatetime (now_log e)),
               (''user_id'', PStr (user_id (user_permissions p))),
               (''operation'', PStr ''QUERY''),
               (''query'', PStr query),
               (''success'', PBool False),
               (''rows_returned'', PInt 0)]]
       \<and> (\<exists>conn. logs (audit_logger p4) = logs (audit_logger p) @ conn)
       \<and> cache (query_cache (snd (Proxy_execute_query svc md5 p query e))) = cache c1
       \<and> set (cache c1) \<subseteq> set (cache (query_cache p))
       \<and> query_count (metrics_collector (snd (Proxy_execute_query svc md5 p query e)))
           = query_count (metrics_collector p)"
proof -
  let ?p2 = "p\<lparr>query_cache := c1, metrics_collector := record_cache_miss (metrics_collector p)\<rparr>"
  have p3: "p3 = ?p2\<lparr>real_service := Some s\<rparr>" using svc by (rule get_real_service_eq)
  note fr = ensure_connected_eq[OF conn]
  have run: "Proxy_execute_query svc md5 p query e =
     (Inl err, p4\<lparr>real_service := Some s2,
        audit_logger := log_query (audit_logger p4) (user_id (user_permissions p4)) query PyNone
          (now_log e)\<rparr>)"
    unfolding Proxy_execute_query_def
    using perm miss svc conn store raises
    by (simp add: check_permissions_def Let_def)
  have sub: "set (cache c1) \<subseteq> set (cache (query_cache p))" using miss by (rule get_miss_cache)
  show ?thesis
    unfolding run using fr sub
    by (simp add: p3 log_query_def record_cache_miss_def)
qed


theorem store_error_in_execute_query_witness:
  "fst (Proxy_execute_query Real_dropped example_md5
          (Proxy_init example_config readonly_permissions) ''SELECT * FROM users''
          (example_env 1000))
     = Inl (RuntimeError ''Not connected to database'')
   \<and> logs (audit_logger (snd (Proxy_execute_query Real_dropped example_md5
          (Proxy_init example_config readonly_permissions) ''SELECT * FROM users''
          (example_env 1000))))
     = [[(''timestamp'', PDatetime 1000), (''user_id'', PStr ''readonly_user''),
         (''operation'', PStr ''CONNECTION''), (''success'', PBool True)],
        [(''timestamp'', PDatetime 1000), (''user_id'', PStr ''readonly_user''),
         (''operation'', PStr ''QUERY''), (''query'', PStr ''SELECT * FROM users''),
         (''success'', PBool False), (''rows_returned'', PInt 0)]]
   \<and> cache (query_cache (snd (Proxy_execute_query Real_dropped example_md5
          (Proxy_init example_config readonly_permissions) ''SELECT * FROM users''
          (example_env 1000)))) = []
   \<and> query_count (metrics_collector (snd (Proxy_execute_query Real_dropped example_md5
          (Proxy_init example_config readonly_permissions) ''SELECT * FROM users''
          (example_env 1000)))) = 0"
proof -
  let ?p = "Proxy_init example_config readonly_permissions :: RealDatabaseService DatabaseProxy"
  let ?q = "''SELECT * FROM users''"
  let ?e = "example_env 1000"
  let ?c1 = "query_cache ?p"
  let ?p2 = "?p\<lparr>query_cache := ?c1,
                 metrics_collector := record_cache_miss (metrics_collector ?p)\<rparr>"
  let ?s = "Real_init example_config"
  let ?p3 = "?p2\<lparr>real_service := Some ?s\<rparr>"
  let ?p4 = "snd (Proxy_connect Real_dropped ?p3 ?e)"
  let ?s1 = "?s\<lparr>connected := True, connection_time := Some 1000\<rparr>"
  let ?s2 = "?s\<lparr>connected := False, connection_time := None\<rparr>"
  have perm: "has_permission (user_permissions ?p) ?q"
    by (simp add: proxy_eval string_eval)
  have miss: "QueryCache_get example_md5 (query_cache ?p) ?q (now_get_check ?e) (now_get_access ?e)
                = (None, ?c1)"
    by (simp add: proxy_eval cache_eval)
  have svc: "get_real_service Real_dropped ?p2 = (?s, ?p3)"
    by (simp add: proxy_eval dropped_eval)
  have conn: "(if \<not> svc_is_connected Real_dropped ?s then Proxy_connect Real_dropped ?p3 ?e
               else (True, ?p3)) = (True, ?p4)"
    by (simp add: prod_eq_iff proxy_eval dropped_eval)
  have store: "real_service ?p4 = Some ?s1"
    by (simp add: proxy_eval dropped_eval)
  have raises: "svc_execute_query Real_dropped ?e ?s1 ?q
                  = (Inl (RuntimeError ''Not connected to database''), ?s2)"
    by (simp add: dropped_eval)
  have logs4: "logs (audit_logger ?p4)
     = [[(''timestamp'', PDatetime 1000), (''user_id'', PStr ''readonly_user''),
         (''operation'', PStr ''CONNECTION''), (''success'', PBool True)]]"
    by (simp add: proxy_eval dropped_eval)
  have c1: "cache ?c1 = []" by (simp add: proxy_eval cache_eval)
  have qc: "query_count (metrics_collector ?p) = 0" by (simp add: proxy_eval)
  have uid: "user_id (user_permissions ?p) = ''readonly_user''" by (simp add: proxy_eval)
  have nl: "now_log ?e = 1000" by (simp add: example_env_def)
  show ?thesis
    using store_error_in_execute_query [OF perm miss svc conn store raises]
    unfolding logs4 c1 qc uid nl by simp
qed

subsection \<open>Cache hits\<close>

lemma get_hit:
  assumes "QueryCache_get md5 c query now1 now2 = (Some r, c1)"
  shows "\<exists>t. map_of (cache c) (get_cache_key md5 query) = Some (r, t)" and "cache c1 = cache c"
  using assms
  by (auto simp: QueryCache_get_def Let_def split: option.splits if_splits simp del: map_of_eq_Some_iff)

lemma execute_query_Inr_cached:
  assumes first: "Proxy_execute_query svc md5 p q1 e1 = (Inr r1, p1)"
    and read: "startswith (strip (lower q1)) ''select''"
  shows "\<exists>t. map_of (cache (query_cache p1)) (get_cache_key md5 q1) = Some (r1, t)"
proof -
  from first have perm: "check_permissions p q1"
    by (auto simp: Proxy_execute_query_def split: if_splits)
  obtain cr c1 where g: "QueryCache_get md5 (query_cache p) q1 (now_get_check e1) (now_get_access e1)
      = (cr, c1)"
    by (cases "QueryCache_get md5 (query_cache p) q1 (now_get_check e1) (now_get_access e1)")
  show ?thesis
  proof (cases cr)
    case (Some r)
    with first perm g have "r = r1" and "query_cache p1 = c1"
      by (auto simp: Proxy_execute_query_def)
    with get_hit[of md5 "query_cache p" q1 _ _ r c1] g Some show ?thesis by simp
  next
    case None
    let ?p2 = "p\<lparr>query_cache := c1, metrics_collector := record_cache_miss (metrics_collector p)\<rparr>"
    obtain s p3 where gs: "get_real_service svc ?p2 = (s, p3)" by (cases "get_real_service svc ?p2")
    obtain ok p4 where c: "(if \<not> svc_is_connected svc s then Proxy_connect svc p3 e1 else (True, p3))
        = (ok, p4)"
      by (cases "(if \<not> svc_is_connected svc s then Proxy_connect svc p3 e1 else (True, p3))")
    from first perm g None gs c read obtain c5 where
      "query_cache p1 = QueryCache_put md5 c5 q1 r1 (now_put_cached e1) (now_put_access e1)"
      unfolding Proxy_execute_query_def
      by (simp add: Let_def split: if_splits option.splits prod.splits sum.splits) auto
    then show ?thesis
      by (simp add: QueryCache_put_def Let_def map_of_update_same)
  qed
qed

lemma example_first_query:
  "Proxy_execute_query Real example_md5 (Proxy_init example_config readonly_permissions)
     ''SELECT * FROM users'' (example_env 1000)
   = (Inr (example_users_result 1000), example_proxy)"
proof -
  have "fst (Proxy_execute_query Real example_md5 (Proxy_init example_config readonly_permissions)
     ''SELECT * FROM users'' (example_env 1000)) = Inr (example_users_result 1000)"
    by (simp add: proxy_eval store_eval cache_eval string_eval example_users_result_def)
  then show ?thesis by (simp add: prod_eq_iff example_proxy_def)
qed

subsection \<open>Fifty reads between two calls\<close>

lemma strip_id:
  assumes "s \<noteq> []" and "\<not> isspace (hd s)" and "\<not> isspace (last s)"
  shows "strip s = s"
proof -
  have 1: "dropWhile isspace s = s" using assms(2) by (simp add: dropWhile_eq_self_iff)
  have "hd (rev s) = last s" using assms(1) by (simp add: hd_rev)
  then have 2: "dropWhile isspace (rev s) = rev s"
    using assms(3) by (simp add: dropWhile_eq_self_iff)
  show ?thesis unfolding strip_def 1 2 by simp
qed

lemma example_query_key: "strip (lower (example_query n)) = example_key n"
proof -
  have l: "lower (example_query n) = example_key n"
    by (simp add: example_query_def example_key_def lower_def lower_char_def)
  have "strip (example_key n) = example_key n"
    by (rule strip_id) (simp_all add: example_key_def isspace_def)
  with l show ?thesis by simp
qed

lemma example_key_inj: "(example_key i = example_key j) = (i = j)"
  by (simp add: example_key_def)

lemma example_key_not_users: "example_key n \<noteq> ''select * from users''"
  by (simp add: example_key_def)

lemma example_query_permitted: "has_permission readonly_permissions (example_query n)"
  by (simp add: has_permission_def example_query_def readonly_permissions_def
      can_execute_select_def string_eval)

lemma example_query_select: "startswith (example_key n) ''select''"
  by (simp add: example_key_def startswith_def)

lemma example_query_users: "str_in ''users'' (example_key n)"
  by (simp add: example_key_def startswith_def)

lemma example_query_result:
  assumes "connected s" and "mock_data s = [(''users'', mock_users), (''products'', mock_products)]"
  shows "Real_execute_query (example_env t) s (example_query n) = (Inr (example_users_result t), s)"
  using assms
  by (simp add: Real_execute_query_def example_query_key example_query_select example_query_users
      Real_table_def example_users_result_def example_env_def)

lemma read_miss_step:
  assumes perm: "has_permission (user_permissions p) q"
    and sel: "startswith (strip (lower q)) ''select''"
    and store: "real_service p = Some s" and conn: "connected s"
    and miss: "map_of (cache (query_cache p)) (get_cache_key md5 q) = None"
    and run: "Real_execute_query e s q = (Inr r, s)"
  shows "Proxy_execute_query Real md5 p q e =
     (Inr r,
      p\<lparr>query_cache := QueryCache_put md5 (query_cache p) q r (now_put_cached e) (now_put_access e),
        metrics_collector := record_query (record_cache_miss (metrics_collector p)) (elapsed e),
        audit_logger := log_query (audit_logger p) (user_id (user_permissions p)) q
                          (PyQueryResult r) (now_log e)\<rparr>)"
proof -
  have g: "QueryCache_get md5 (query_cache p) q (now_get_check e) (now_get_access e)
            = (None, query_cache p)"
    using miss by (simp add: QueryCache_get_def)
  show ?thesis
    unfolding Proxy_execute_query_def
    using perm sel store conn run g
    by (simp add: check_permissions_def get_real_service_def Real_def Real_is_connected_def Let_def)
qed


lemma update_new: "k \<notin> fst ` set xs \<Longrightarrow> AList.update k v xs = xs @ [(k, v)]"
  by (induction xs) auto

lemma min_by_first: "\<forall>x\<in>set xs. \<not> snd x < snd b \<Longrightarrow> min_by b xs = b"
  by (induction xs) auto

lemma example_reads_Suc:
  "example_reads (Suc n) p =
     snd (Proxy_execute_query Real example_md5 (example_reads n p) (example_query n)
            (example_env 1500))"
  by (simp add: example_reads_def)

lemma example_key_new:
  "example_key n \<notin> fst ` set (map (\<lambda>i. (example_key i, v i)) [0..<n])"
  by (auto simp: example_key_inj)

lemma example_filled_miss:
  "map_of (cache (example_filled n)) (get_cache_key example_md5 (example_query n)) = None"
proof -
  have "example_key n \<notin> fst ` set (cache (example_filled n))"
    using example_key_new[of n "\<lambda>i. (example_users_result 1500, 1500)"]
    by (simp add: example_filled_def example_key_not_users)
  then show ?thesis
    by (simp add: get_cache_key_def example_md5_def example_query_key map_of_eq_None_iff)
qed

lemma put_filled:
  assumes "n < 49"
  shows "QueryCache_put example_md5 (example_filled n) (example_query n)
           (example_users_result 1500) 1500 1500 = example_filled (Suc n)"
proof -
  have 1: "AList.update (example_key n) (example_users_result 1500, 1500) (cache (example_filled n))
      = cache (example_filled n) @ [(example_key n, (example_users_result 1500, 1500))]"
    by (rule update_new)
      (use example_key_new[of n "\<lambda>i. (example_users_result 1500, 1500)"]
        in \<open>simp add: example_filled_def example_key_not_users\<close>)
  have 2: "AList.update (example_key n) 1500 (access_times (example_filled n))
      = access_times (example_filled n) @ [(example_key n, 1500)]"
    by (rule update_new)
      (use example_key_new[of n "\<lambda>i. 1500"]
        in \<open>simp add: example_filled_def example_key_not_users\<close>)
  have 3: "\<not> max_size (example_filled n) \<le> int (length (cache (example_filled n)))"
    using assms by (simp add: example_filled_def)
  show ?thesis
    unfolding QueryCache_put_def Let_def get_cache_key_def example_md5_def example_query_key
    using 3 1 2 by (simp add: example_filled_def)
qed

lemma put_full:
  "map_of (cache (QueryCache_put example_md5 (example_filled 49) (example_query 49) r t1 t2))
     ''select * from users'' = None"
proof -
  let ?c = "example_filled 49"
  have full: "max_size ?c \<le> int (length (cache ?c))" by (simp add: example_filled_def)
  have m: "min_by (''select * from users'', 1000) (map (\<lambda>i. (example_key i, 1500)) [0..<49])
            = (''select * from users'', 1000)"
    by (rule min_by_first) auto
  have ev: "cache (evict_oldest ?c) = AList.delete ''select * from users'' (cache ?c)"
    by (simp add: evict_oldest_def example_filled_def m dict_keys_def Let_def)
  show ?thesis
    unfolding QueryCache_put_def Let_def get_cache_key_def example_md5_def example_query_key
    using full
    by (simp add: ev AList.update_conv' map_of_delete_same example_key_not_users
        example_key_not_users[symmetric])
qed

lemma example_reads_inv:
  assumes "n \<le> 49"
  shows "user_permissions (example_reads n example_proxy) = readonly_permissions
       \<and> real_service (example_reads n example_proxy)
           = Some ((Real_init example_config)\<lparr>connected := True, connection_time := Some 1000\<rparr>)
       \<and> query_cache (example_reads n example_proxy) = example_filled n"
  using assms
proof (induction n)
  case 0
  show ?case
    by (simp add: example_reads_def example_proxy_eq example_filled_def)
next
  case (Suc n)
  let ?p = "example_reads n example_proxy"
  let ?s = "(Real_init example_config)\<lparr>connected := True, connection_time := Some 1000\<rparr>"
  from Suc have ih: "user_permissions ?p = readonly_permissions" "real_service ?p = Some ?s"
    "query_cache ?p = example_filled n" and n: "n < 49" by simp_all
  have run: "Real_execute_query (example_env 1500) ?s (example_query n)
      = (Inr (example_users_result 1500), ?s)"
    by (rule example_query_result) (simp_all add: Real_init_def)
  have step: "Proxy_execute_query Real example_md5 ?p (example_query n) (example_env 1500) =
     (Inr (example_users_result 1500),
      ?p\<lparr>query_cache := QueryCache_put example_md5 (query_cache ?p) (example_query n)
            (example_users_result 1500) (now_put_cached (example_env 1500))
            (now_put_access (example_env 1500)),
        metrics_collector := record_query (record_cache_miss (metrics_collector ?p))
            (elapsed (example_env 1500)),
        audit_logger := log_query (audit_logger ?p) (user_id (user_permissions ?p))
            (example_query n) (PyQueryResult (example_users_result 1500))
            (now_log (example_env 1500))\<rparr>)"
  proof (rule read_miss_step)
    show "has_permission (user_permissions ?p) (example_query n)"
      unfolding ih by (rule example_query_permitted)
    show "startswith (strip (lower (example_query n))) ''select''"
      unfolding example_query_key by (rule example_query_select)
    show "real_service ?p = Some ?s" by (rule ih)
    show "connected ?s" by simp
    show "map_of (cache (query_cache ?p)) (get_cache_key example_md5 (example_query n)) = None"
      unfolding ih by (rule example_filled_miss)
    show "Real_execute_query (example_env 1500) ?s (example_query n)
      = (Inr (example_users_result 1500), ?s)" by (rule run)
  qed
  show ?case
    unfolding example_reads_Suc step
    using ih put_filled[OF n] by (simp add: example_env_def)
qed

lemma example_reads_evicted:
  "user_permissions (example_reads 50 example_proxy) = readonly_permissions
   \<and> real_service (example_reads 50 example_proxy)
       = Some ((Real_init example_config)\<lparr>connected := True, connection_time := Some 1000\<rparr>)
   \<and> map_of (cache (query_cache (example_reads 50 example_proxy))) ''select * from users'' = None"
proof -
  let ?p = "example_reads 49 example_proxy"
  let ?s = "(Real_init example_config)\<lparr>connected := True, connection_time := Some 1000\<rparr>"
  have ih: "user_permissions ?p = readonly_permissions" "real_service ?p = Some ?s"
    "query_cache ?p = example_filled 49"
    using example_reads_inv[of 49] by simp_all
  have run: "Real_execute_query (example_env 1500) ?s (example_query 49)
      = (Inr (example_users_result 1500), ?s)"
    by (rule example_query_result) (simp_all add: Real_init_def)
  have step: "Proxy_execute_query Real example_md5 ?p (example_query 49) (example_env 1500) =
     (Inr (example_users_result 1500),
      ?p\<lparr>query_cache := QueryCache_put example_md5 (query_cache ?p) (example_query 49)
            (example_users_result 1500) (now_put_cached (example_env 1500))
            (now_put_access (example_env 1500)),
        metrics_collector := record_query (record_cache_miss (metrics_collector ?p))
            (elapsed (example_env 1500)),
        audit_logger := log_query (audit_logger ?p) (user_id (user_permissions ?p))
            (example_query 49) (PyQueryResult (example_users_result 1500))
            (now_log (example_env 1500))\<rparr>)"
  proof (rule read_miss_step)
    show "has_permission (user_permissions ?p) (example_query 49)"
      unfolding ih by (rule example_query_permitted)
    show "startswith (strip (lower (example_query 49))) ''select''"
      unfolding example_query_key by (rule example_query_select)
    show "real_service ?p = Some ?s" by (rule ih)
    show "connected ?s" by simp
    show "map_of (cache (query_cache ?p)) (get_cache_key example_md5 (example_query 49)) = None"
      unfolding ih by (rule example_filled_miss)
    show "Real_execute_query (example_env 1500) ?s (example_query 49)
      = (Inr (example_users_result 1500), ?s)" by (rule run)
  qed
  have e: "example_reads 50 example_proxy
      = snd (Proxy_execute_query Real example_md5 ?p (example_query 49) (example_env 1500))"
    using example_reads_Suc[of 49 example_proxy] by simp
  show ?thesis
    unfolding e step using ih put_full by simp
qed


lemma example_second_query:
  "Proxy_execute_query Real example_md5 (example_reads 50 example_proxy) ''SELECT * FROM users''
     (example_env 2000)
   = (Inr (example_users_result 2000),
      (example_reads 50 example_proxy)
        \<lparr>query_cache := QueryCache_put example_md5 (query_cache (example_reads 50 example_proxy))
            ''SELECT * FROM users'' (example_users_result 2000)
            (now_put_cached (example_env 2000)) (now_put_access (example_env 2000)),
         metrics_collector :=
            record_query (record_cache_miss (metrics_collector (example_reads 50 example_proxy)))
              (elapsed (example_env 2000)),
         audit_logger :=
            log_query (audit_logger (example_reads 50 example_proxy))
              (user_id (user_permissions (example_reads 50 example_proxy)))
              ''SELECT * FROM users'' (PyQueryResult (example_users_result 2000))
              (now_log (example_env 2000))\<rparr>)"
proof (rule read_miss_step)
  let ?s = "(Real_init example_config)\<lparr>connected := True, connection_time := Some 1000\<rparr>"
  note ev = example_reads_evicted
  show "has_permission (user_permissions (example_reads 50 example_proxy)) ''SELECT * FROM users''"
    using ev by (simp add: proxy_eval string_eval)
  show "startswith (strip (lower ''SELECT * FROM users'')) ''select''"
    by (simp add: string_eval)
  show "real_service (example_reads 50 example_proxy) = Some ?s" using ev by simp
  show "connected ?s" by simp
  show "map_of (cache (query_cache (example_reads 50 example_proxy)))
          (get_cache_key example_md5 ''SELECT * FROM users'') = None"
    using ev by (simp add: get_cache_key_def example_md5_def string_eval)
  show "Real_execute_query (example_env 2000) ?s ''SELECT * FROM users''
          = (Inr (example_users_result 2000), ?s)"
    by (simp add: store_eval string_eval example_users_result_def example_env_def)
qed


lemma example_later_proxy_eq:
  "user_permissions example_later_proxy = readonly_permissions
   \<and> real_service example_later_proxy = real_service example_proxy
   \<and> query_cache example_later_proxy
       = \<lparr> max_size = 50, ttl_seconds = 300,
           cache = [(''select * from users'', (example_users_result 1000, 1000)),
                    (''select * from products'',
                     (\<lparr> rows = mock_products, affected_rows = 0, execution_time = 1 / 25,
                        timestamp = 1500 \<rparr>, 1500))],
           access_times = [(''select * from users'', 1000), (''select * from products'', 1500)] \<rparr>
   \<and> metrics_collector example_later_proxy
       = \<lparr> query_count = 2, cache_hits = 0, cache_misses = 2, total_execution_time = 1 / 10,
           connection_count = 1 \<rparr>"
  unfolding example_later_proxy_def
  by (simp add: example_proxy_eq proxy_eval store_eval cache_eval string_eval)

subsection \<open>The second of two equal reads\<close>

text \<open>
  C5, as the claim states it, fails in two ways. When the second text has whitespace in
  front, the permission check, which looks at the text as it is given (\<open>upper\<close>, no
  \<open>strip\<close>), finds none of its keywords at the start and refuses the call, although the
  text has the cache key of the first one: the first query of the read-only user
  succeeds, the same query with a leading blank raises \<open>PermissionError\<close>. And reads
  between the two calls can evict the entry: after fifty other queries (no write, the
  clock at 1500 and 2000 well within the time to live of 300 seconds) the cache, of
  capacity 50, has dropped the entry of the first call, and the same text goes to the
  store again, which counts one more query and returns a result with a new timestamp.
\<close>

theorem cache_hit_equivalence_counterexample:
  "strip (lower ''SELECT * FROM users'') = strip (lower '' select * from users'')
   \<and> startswith (strip (lower '' select * from users'')) ''select''
   \<and> Proxy_execute_query Real example_md5 (Proxy_init example_config readonly_permissions)
        ''SELECT * FROM users'' (example_env 1000)
      = (Inr (example_users_result 1000), example_proxy)
   \<and> fst (Proxy_execute_query Real example_md5 example_proxy '' select * from users''
        (example_env 2000))
      = Inl (PermissionError
          ''User readonly_user does not have permission to execute:  select * from users'')
   \<and> fst (Proxy_execute_query Real example_md5 (example_reads 50 example_proxy)
        ''SELECT * FROM users'' (example_env 2000))
      = Inr (example_users_result 2000)
   \<and> example_users_result 2000 \<noteq> example_users_result 1000
   \<and> query_count (metrics_collector (snd (Proxy_execute_query Real example_md5
        (example_reads 50 example_proxy) ''SELECT * FROM users'' (example_env 2000))))
      = query_count (metrics_collector (example_reads 50 example_proxy)) + 1
   \<and> cache_hits (metrics_collector (snd (Proxy_execute_query Real example_md5
        (example_reads 50 example_proxy) ''SELECT * FROM users'' (example_env 2000))))
      = cache_hits (metrics_collector (example_reads 50 example_proxy))"
proof -
  have 1: "strip (lower ''SELECT * FROM users'') = strip (lower '' select * from users'')"
    by (simp add: string_eval)
  have 3: "fst (Proxy_execute_query Real example_md5 example_proxy '' select * from users''
        (example_env 2000))
      = Inl (PermissionError
          ''User readonly_user does not have permission to execute:  select * from users'')"
    by (simp add: example_proxy_eq proxy_eval string_eval)
  have 4: "startswith (strip (lower '' select * from users'')) ''select''"
    by (simp add: string_eval)
  have 5: "example_users_result 2000 \<noteq> example_users_result 1000"
    by (simp add: example_users_result_def)
  show ?thesis
    unfolding example_second_query
    using 1 4 example_first_query 3 5
    by (simp add: record_query_def record_cache_miss_def)
qed

text \<open>
  C5, amended. Let \<open>q1\<close> and \<open>q2\<close> be equal after lower-casing and stripping, \<open>q1\<close> a read
  request (it then begins with \<open>select\<close>), and let \<open>execute_query\<close> of \<open>q1\<close> return \<open>r1\<close>,
  leaving the proxy in \<open>p1\<close>. Let \<open>p2\<close> be any later state in which the cache still holds
  for the key what \<open>p1\<close> holds (\<open>p1\<close> itself is one), and let \<open>q2\<close> pass the permission
  check and be issued in \<open>p2\<close> before the entry's time to live has run out. Then: the
  entry of the common key holds \<open>r1\<close>; the second call returns \<open>r1\<close>; the store is as it
  was, for every store, so none of its methods has run; of the metrics only \<open>cache_hits\<close>
  changes, by one; the cache keeps its entries (the time of last access of the key is set)
  and the audit log gains the record of the call.
\<close>

theorem cache_hit_equivalence:
  assumes canon: "strip (lower q1) = strip (lower q2)"
    and read: "startswith (strip (lower q1)) ''select''"
    and first: "Proxy_execute_query svc md5 p q1 e1 = (Inr r1, p1)"
    and kept: "map_of (cache (query_cache p2)) (get_cache_key md5 q1)
                 = map_of (cache (query_cache p1)) (get_cache_key md5 q1)"
    and perm: "has_permission (user_permissions p2) q2"
    and fresh: "\<forall>v t. map_of (cache (query_cache p2)) (get_cache_key md5 q1) = Some (v, t)
                  \<longrightarrow> now_get_check e2 - t < timedelta_seconds (ttl_seconds (query_cache p2))"
  shows "(\<exists>t. map_of (cache (query_cache p1)) (get_cache_key md5 q1) = Some (r1, t))
       \<and> Proxy_execute_query svc md5 p2 q2 e2
           = (Inr r1,
              p2\<lparr>query_cache :=
                   (query_cache p2)\<lparr>access_times :=
                      AList.update (get_cache_key md5 q2) (now_get_access e2)
                        (access_times (query_cache p2))\<rparr>,
                 metrics_collector :=
                   (metrics_collector p2)\<lparr>cache_hits := cache_hits (metrics_collector p2) + 1\<rparr>,
                 audit_logger :=
                   log_query (audit_logger p2) (user_id (user_permissions p2)) q2
                     (PyQueryResult r1) (now_log e2)\<rparr>)
       \<and> real_service (snd (Proxy_execute_query svc md5 p2 q2 e2)) = real_service p2
       \<and> cache (query_cache (snd (Proxy_execute_query svc md5 p2 q2 e2))) = cache (query_cache p2)"
proof -
  from execute_query_Inr_cached[OF first read] obtain t where
    t1: "map_of (cache (query_cache p1)) (get_cache_key md5 q1) = Some (r1, t)" by blast
  with kept have t: "map_of (cache (query_cache p2)) (get_cache_key md5 q1) = Some (r1, t)"
    by simp
  with fresh have f: "now_get_check e2 - t < timedelta_seconds (ttl_seconds (query_cache p2))"
    by blast
  have k: "get_cache_key md5 q2 = get_cache_key md5 q1" using canon by (simp add: get_cache_key_def)
  have g: "QueryCache_get md5 (query_cache p2) q2 (now_get_check e2) (now_get_access e2)
     = (Some r1, (query_cache p2)\<lparr>access_times :=
                      AList.update (get_cache_key md5 q2) (now_get_access e2)
                        (access_times (query_cache p2))\<rparr>)"
    using t f by (simp add: QueryCache_get_def k Let_def)
  have run: "Proxy_execute_query svc md5 p2 q2 e2
           = (Inr r1,
              p2\<lparr>query_cache :=
                   (query_cache p2)\<lparr>access_times :=
                      AList.update (get_cache_key md5 q2) (now_get_access e2)
                        (access_times (query_cache p2))\<rparr>,
                 metrics_collector :=
                   (metrics_collector p2)\<lparr>cache_hits := cache_hits (metrics_collector p2) + 1\<rparr>,
                 audit_logger :=
                   log_query (audit_logger p2) (user_id (user_permissions p2)) q2
                     (PyQueryResult r1) (now_log e2)\<rparr>)"
    unfolding Proxy_execute_query_def using perm g
    by (simp add: check_permissions_def record_cache_hit_def)
  show ?thesis using t1 unfolding run by simp
qed

theorem cache_hit_equivalence_witness:
  "strip (lower ''SELECT * FROM users'') = strip (lower ''select * from Users  '')
   \<and> Proxy_execute_query Real example_md5 (Proxy_init example_config readonly_permissions)
        ''SELECT * FROM users'' (example_env 1000)
      = (Inr (example_users_result 1000), example_proxy)
   \<and> query_cache example_later_proxy \<noteq> query_cache example_proxy
   \<and> fst (Proxy_execute_query Real example_md5 example_later_proxy ''select * from Users  ''
        (example_env 2000))
      = Inr (example_users_result 1000)
   \<and> real_service (snd (Proxy_execute_query Real example_md5 example_later_proxy
        ''select * from Users  '' (example_env 2000))) = real_service example_later_proxy
   \<and> metrics_collector (snd (Proxy_execute_query Real example_md5 example_later_proxy
        ''select * from Users  '' (example_env 2000)))
      = \<lparr> query_count = 2, cache_hits = 1, cache_misses = 2, total_execution_time = 1 / 10,
          connection_count = 1 \<rparr>"
proof -
  note l = example_later_proxy_eq
  have canon: "strip (lower ''SELECT * FROM users'') = strip (lower ''select * from Users  '')"
    by (simp add: string_eval)
  have read: "startswith (strip (lower ''SELECT * FROM users'')) ''select''"
    by (simp add: string_eval)
  have kept: "map_of (cache (query_cache example_later_proxy))
                (get_cache_key example_md5 ''SELECT * FROM users'')
              = map_of (cache (query_cache example_proxy))
                (get_cache_key example_md5 ''SELECT * FROM users'')"
    using l by (simp add: example_proxy_eq cache_eval string_eval)
  have perm: "has_permission (user_permissions example_later_proxy) ''select * from Users  ''"
    using l by (simp add: proxy_eval string_eval)
  have fresh: "\<forall>v t. map_of (cache (query_cache example_later_proxy))
                        (get_cache_key example_md5 ''SELECT * FROM users'') = Some (v, t)
                  \<longrightarrow> now_get_check (example_env 2000) - t
                        < timedelta_seconds (ttl_seconds (query_cache example_later_proxy))"
    using l by (simp add: cache_eval string_eval example_env_def)
  have ne: "query_cache example_later_proxy \<noteq> query_cache example_proxy"
    using l by (simp add: example_proxy_eq)
  have m: "metrics_collector example_later_proxy
      = \<lparr> query_count = 2, cache_hits = 0, cache_misses = 2, total_execution_time = 1 / 10,
          connection_count = 1 \<rparr>"
    using l by simp
  show ?thesis
    using canon example_first_query ne
      cache_hit_equivalence [OF canon read example_first_query kept perm fresh]
    by (simp add: m)
qed

end
